theory Spec2Isabelle
  imports Main
begin

section \<open>The persisted schema (database/schema.sql)\<close>

text \<open>
  Identifiers are UUIDs or gateway references: texts. Which texts the database reads
  as a UUID is a parameter \<open>is_uuid\<close> of the handlers: a statement that compares a
  UUID column with a text the database cannot read as one is rejected (error 22P02).
  A gateway reference that is null behaves, in every comparison of the handlers, like
  a UUID that no row carries. Monetary columns (DECIMAL(12, 2)) are integers counting
  cents; instants are milliseconds since the epoch. Payments and orders carry their
  \<open>updated_at\<close>, which the UPDATE statements of the handlers set; the columns no
  modelled statement reads or writes (among them \<open>products.updated_at\<close>, written by
  its trigger only) are left out of the rows, and the widths of the text columns are
  not modelled.
\<close>

type_synonym id = string

datatype product_status = Disponible | Agotado | Descontinuado

datatype product_type = Normal | Oferta | Nuevo | Usado | Unico

datatype order_status = Pendiente | Pagado | Enviado | Entregado | Cancelado

datatype role = Customer | Admin

record user_row =
  u_id :: id
  u_name :: string
  u_email :: string
  u_password :: string
  u_role :: role
  u_phone :: "string option"
  u_address :: "string option"

record product_row =
  p_name :: string
  p_status :: product_status
  p_product_type :: product_type
  p_stock :: int

record order_row =
  o_user_id :: id
  o_status :: order_status
  o_total :: int
  o_shipping_address :: string
  o_payment_id :: "id option"
  o_updated_at :: nat

record order_item_row =
  oi_order_id :: id
  oi_product_id :: id
  oi_quantity :: int
  oi_unit_price :: int

text \<open>What processWebhook returns: the gateway's view of one payment.\<close>

record payment_data =
  pd_payment_id :: id
  pd_status :: string
  pd_external_reference :: id
  pd_details :: string

text \<open>
  The column \<open>gateway_response\<close> holds a JSON text: either the stringified payment data
  of a webhook, or the record of a manual submission (proof and instant).
\<close>

datatype gateway_response = Gateway_payload payment_data | Manual_proof "string option" nat

record payment_row =
  pay_id :: id
  pay_order_id :: id
  pay_method :: string
  pay_amount :: int
  pay_currency :: string
  pay_status :: string
  pay_external_id :: "id option"
  pay_gateway_response :: "gateway_response option"
  pay_created_at :: nat
  pay_updated_at :: nat

record session_row =
  s_user_id :: id
  s_token :: string
  s_expires_at :: nat

text \<open>
  Tables that the handlers reach through their primary key only (products, orders) are
  maps from the key; tables that are scanned (users by email, payments and order items
  by order, sessions by token or user) are lists of rows, in storage order.
\<close>

record db =
  users :: "user_row list"
  products :: "id \<rightharpoonup> product_row"
  orders :: "id \<rightharpoonup> order_row"
  order_items :: "order_item_row list"
  payments :: "payment_row list"
  user_sessions :: "session_row list"

section \<open>Errors, responses and the environment of a request\<close>

datatype error =
  Statement_failed | Check_violation | Not_null_violation | Invalid_uuid
  | Gateway_failure | Processing_error | Type_error
  | JsonWebTokenError | TokenExpiredError | Other_error

text \<open>The messages of the JSON bodies, by name (the source's texts are Spanish).\<close>

datatype message =
  Orden_no_encontrada | Orden_no_valida_para_pago | Error_procesando_solicitud_de_pago
  | Pago_no_encontrado | Error_verificando_el_pago | Orden_no_encontrada_o_no_valida
  | Comprobante_enviado | Error_procesando_el_pago
  | Datos_invalidos | Email_ya_registrado | Usuario_registrado | Credenciales_invalidas
  | Inicio_de_sesion_exitoso | Error_interno_del_servidor
  | Token_requerido | Token_invalido | Token_expirado | Usuario_no_encontrado

record user_view =
  uv_id :: id
  uv_name :: string
  uv_email :: string
  uv_role :: role

record preference =
  preference_id :: id
  init_point :: string
  sandbox_init_point :: string

record payment_view =
  pv_payment_id :: id
  pv_status :: string
  pv_amount :: int
  pv_currency :: string
  pv_order_status :: order_status
  pv_created_at :: nat
  pv_updated_at :: nat

datatype body =
  Text string
  | Failure message
  | Preference_data preference
  | Payment_status payment_view
  | Manual_payment message id string
  | Auth_data message user_view string

type_synonym response = "nat \<times> body"

text \<open>
  The taxonomy of the specification, read off the status code: NotFoundError is 404,
  StateError, ValidationError and ConflictError are 400, AuthError is 401.
\<close>

definition not_found :: "message \<Rightarrow> response" where
  "not_found m = (404, Failure m)"

definition bad_request :: "message \<Rightarrow> response" where
  "bad_request m = (400, Failure m)"

definition unauthorized :: "message \<Rightarrow> response" where
  "unauthorized m = (401, Failure m)"

definition server_error :: "message \<Rightarrow> response" where
  "server_error m = (500, Failure m)"

text \<open>A rejected promise ends the awaiting function: \<open>await\<close> passes the error on.\<close>

definition await :: "error + 'a \<Rightarrow> ('a \<Rightarrow> error + 'b) \<Rightarrow> error + 'b" where
  "await m k = (case m of Inl e \<Rightarrow> Inl e | Inr x \<Rightarrow> k x)"

section \<open>The persistence gateway (config/database.js)\<close>

text \<open>
  A statement sent through the transaction's client can be rejected. Two causes are
  modelled: a constraint of the schema that the statement violates, and a failure of
  the statement itself (a lost connection, a deadlock), given by an oracle \<open>faults\<close>
  over the number of the statement within the transaction. The transaction works on a
  copy of the database; \<open>issued\<close> counts the statements sent so far.
\<close>

record tx =
  work :: db
  issued :: nat

text \<open>A statement that writes, and one that only reads.\<close>

definition writes :: "(db \<Rightarrow> db) \<Rightarrow> db \<Rightarrow> error + unit \<times> db" where
  "writes f d = Inr ((), f d)"

definition reads :: "(db \<Rightarrow> 'a) \<Rightarrow> db \<Rightarrow> error + 'a \<times> db" where
  "reads f d = Inr (f d, d)"

text \<open>A statement with a parameter that is compared with a UUID column.\<close>

definition uuid_param ::
  "(string \<Rightarrow> bool) \<Rightarrow> string \<Rightarrow> (db \<Rightarrow> error + 'a \<times> db) \<Rightarrow> db \<Rightarrow> error + 'a \<times> db" where
  "uuid_param is_uuid i stmt d = (if is_uuid i then stmt d else Inl Invalid_uuid)"

definition client_query ::
  "(nat \<Rightarrow> bool) \<Rightarrow> (db \<Rightarrow> error + 'a \<times> db) \<Rightarrow> tx \<Rightarrow> error + 'a \<times> tx" where
  "client_query faults stmt t =
     (if faults (issued t) then Inl Statement_failed
      else case stmt (work t) of
             Inl e \<Rightarrow> Inl e
           | Inr (rows, d) \<Rightarrow> Inr (rows, \<lparr>work = d, issued = Suc (issued t)\<rparr>))"

text \<open>
  \<open>transaction\<close>: BEGIN, the callback, COMMIT; on any error ROLLBACK and rethrow.
  BEGIN is statement 0, COMMIT the statement after the callback's last one.
\<close>

definition transaction ::
  "(nat \<Rightarrow> bool) \<Rightarrow> (tx \<Rightarrow> error + 'a \<times> tx) \<Rightarrow> db \<Rightarrow> (error + 'a) \<times> db" where
  "transaction faults callback d =
     (if faults 0 then (Inl Statement_failed, d)
      else case callback \<lparr>work = d, issued = 1\<rparr> of
             Inl e \<Rightarrow> (Inl e, d)
           | Inr (result, t) \<Rightarrow>
               if faults (issued t) then (Inl Statement_failed, d)
               else (Inr result, work t))"

section \<open>The gateway service (config/mercadopago.js)\<close>

text \<open>
  The gateway is outside the system: \<open>getPayment\<close> is an oracle from a payment id to
  the gateway's answer, which may be an error.
\<close>

record notification =
  n_type :: string
  n_data_id :: "id option"

text \<open>
  \<open>processWebhook\<close>: only a notification of type payment is looked up; reading
  \<open>data.id\<close> of a notification without data throws a TypeError.
\<close>

definition processWebhook ::
  "(id \<Rightarrow> error + payment_data) \<Rightarrow> notification \<Rightarrow> error + payment_data option" where
  "processWebhook getPayment n =
     (if n_type n = ''payment'' then
        (case n_data_id n of
           None \<Rightarrow> Inl Type_error
         | Some i \<Rightarrow> await (getPayment i) (\<lambda>paymentInfo. Inr (Some paymentInfo)))
      else Inr None)"

definition isPaymentApproved :: "string \<Rightarrow> bool" where
  "isPaymentApproved status = (status = ''approved'')"

definition isPaymentRejected :: "string \<Rightarrow> bool" where
  "isPaymentRejected status = (status \<in> set [''rejected'', ''cancelled''])"

section \<open>The webhook handler (controllers/paymentController.js)\<close>

text \<open>The CHECK constraint of \<open>payments.status\<close>.\<close>

definition payment_status_ok :: "string \<Rightarrow> bool" where
  "payment_status_ok status =
     (status \<in> set [''pending'', ''approved'', ''rejected'', ''cancelled''])"

text \<open>
  UPDATE payments SET status, gateway_response, updated_at = CURRENT_TIMESTAMP WHERE
  external_id = payment id OR order_id = external reference. A row that would get a
  status outside the CHECK constraint rejects the statement. \<open>now\<close> is the
  CURRENT_TIMESTAMP of the transaction.
\<close>

definition payment_matches :: "payment_data \<Rightarrow> payment_row \<Rightarrow> bool" where
  "payment_matches pd p =
     (pay_external_id p = Some (pd_payment_id pd) \<or> pay_order_id p = pd_external_reference pd)"

definition set_payment :: "nat \<Rightarrow> payment_data \<Rightarrow> payment_row \<Rightarrow> payment_row" where
  "set_payment now pd p =
     (if payment_matches pd p
      then p\<lparr>pay_status := pd_status pd, pay_gateway_response := Some (Gateway_payload pd),
             pay_updated_at := now\<rparr>
      else p)"

definition update_payments :: "nat \<Rightarrow> payment_data \<Rightarrow> db \<Rightarrow> error + unit \<times> db" where
  "update_payments now pd d =
     (if list_ex (payment_matches pd) (payments d) \<and> \<not> payment_status_ok (pd_status pd)
      then Inl Check_violation
      else writes (\<lambda>d. d\<lparr>payments := map (set_payment now pd) (payments d)\<rparr>) d)"

text \<open>
  SELECT oi.product_id, oi.quantity, p.stock, p.product_type FROM order_items oi
  JOIN products p ON oi.product_id = p.id WHERE oi.order_id = the reference.
\<close>

record item_row =
  ir_product_id :: id
  ir_quantity :: int
  ir_stock :: int
  ir_product_type :: product_type

definition joined_item :: "id \<Rightarrow> db \<Rightarrow> order_item_row \<Rightarrow> item_row option" where
  "joined_item oid d oi =
     (if oi_order_id oi = oid then
        (case products d (oi_product_id oi) of
           None \<Rightarrow> None
         | Some p \<Rightarrow> Some \<lparr>ir_product_id = oi_product_id oi, ir_quantity = oi_quantity oi,
                           ir_stock = p_stock p, ir_product_type = p_product_type p\<rparr>)
      else None)"

definition select_order_items :: "id \<Rightarrow> db \<Rightarrow> item_row list" where
  "select_order_items oid d = List.map_filter (joined_item oid d) (order_items d)"

text \<open>UPDATE products SET status, stock WHERE id = the product.\<close>

definition update_product :: "id \<Rightarrow> product_status \<Rightarrow> int \<Rightarrow> db \<Rightarrow> db" where
  "update_product pid status stock d =
     (case products d pid of
        None \<Rightarrow> d
      | Some p \<Rightarrow> d\<lparr>products := (products d)(pid \<mapsto> p\<lparr>p_status := status, p_stock := stock\<rparr>)\<rparr>)"

text \<open>
  The body of the loop over the selected rows: one UPDATE for each line item, computed
  from the stock that the SELECT read.
\<close>

definition reduce_stock_of :: "item_row \<Rightarrow> db \<Rightarrow> db" where
  "reduce_stock_of item d =
     (if ir_product_type item = Unico then update_product (ir_product_id item) Agotado 0 d
      else
        let newStock = max 0 (ir_stock item - ir_quantity item);
            newStatus = (if newStock = 0 then Agotado else Disponible)
        in update_product (ir_product_id item) newStatus newStock d)"

fun reduce_stock :: "(nat \<Rightarrow> bool) \<Rightarrow> item_row list \<Rightarrow> tx \<Rightarrow> error + unit \<times> tx" where
  "reduce_stock faults [] t = Inr ((), t)"
| "reduce_stock faults (item # items) t =
     await (client_query faults (writes (reduce_stock_of item)) t)
       (\<lambda>(_, t'). reduce_stock faults items t')"

text \<open>
  UPDATE orders SET status, payment_id, updated_at = CURRENT_TIMESTAMP WHERE id = the
  reference.
\<close>

definition update_order :: "nat \<Rightarrow> order_status \<Rightarrow> payment_data \<Rightarrow> db \<Rightarrow> db" where
  "update_order now orderStatus pd d =
     (case orders d (pd_external_reference pd) of
        None \<Rightarrow> d
      | Some ord \<Rightarrow>
          d\<lparr>orders := (orders d)(pd_external_reference pd \<mapsto>
               ord\<lparr>o_status := orderStatus, o_payment_id := Some (pd_payment_id pd),
                   o_updated_at := now\<rparr>)\<rparr>)"

text \<open>
  The middle of the callback: the status the order will get and, for an approved
  payment, the stock of its products.
\<close>

definition order_status_for ::
  "(string \<Rightarrow> bool) \<Rightarrow> (nat \<Rightarrow> bool) \<Rightarrow> payment_data \<Rightarrow> tx \<Rightarrow> error + order_status \<times> tx" where
  "order_status_for is_uuid faults pd t =
     (if isPaymentApproved (pd_status pd) then
        await (client_query faults
                 (uuid_param is_uuid (pd_external_reference pd)
                    (reads (select_order_items (pd_external_reference pd)))) t)
          (\<lambda>(orderItems, t').
             await (reduce_stock faults orderItems t') (\<lambda>(_, t''). Inr (Pagado, t'')))
      else if isPaymentRejected (pd_status pd) then Inr (Cancelado, t)
      else Inr (Pendiente, t))"

text \<open>
  The callback handed to \<open>transaction\<close>. The external reference is compared with
  UUID columns in the first, the second and the last statement.
\<close>

definition reconcile ::
  "(string \<Rightarrow> bool) \<Rightarrow> (nat \<Rightarrow> bool) \<Rightarrow> nat \<Rightarrow> payment_data \<Rightarrow> tx \<Rightarrow> error + unit \<times> tx" where
  "reconcile is_uuid faults now pd t =
     await (client_query faults
              (uuid_param is_uuid (pd_external_reference pd) (update_payments now pd)) t)
       (\<lambda>(_, t1). await (order_status_for is_uuid faults pd t1)
          (\<lambda>(orderStatus, t2).
             client_query faults
               (uuid_param is_uuid (pd_external_reference pd)
                  (writes (update_order now orderStatus pd))) t2))"

definition handleWebhook ::
  "(string \<Rightarrow> bool) \<Rightarrow> (id \<Rightarrow> error + payment_data) \<Rightarrow> (nat \<Rightarrow> bool) \<Rightarrow> nat \<Rightarrow> notification \<Rightarrow> db
     \<Rightarrow> response \<times> db" where
  "handleWebhook is_uuid getPayment faults now n d =
     (case processWebhook getPayment n of
        Inl e \<Rightarrow> ((500, Text ''Error''), d)
      | Inr None \<Rightarrow> ((200, Text ''OK''), d)
      | Inr (Some paymentData) \<Rightarrow>
          (case transaction faults (reconcile is_uuid faults now paymentData) d of
             (Inl e, d') \<Rightarrow> ((500, Text ''Error''), d')
           | (Inr _, d') \<Rightarrow> ((200, Text ''OK''), d')))"

section \<open>The other payment handlers (controllers/paymentController.js)\<close>

text \<open>
  The order of \<open>createPaymentPreference\<close>, with its items aggregated over the LEFT
  JOINs: an order without line items yields one item whose fields are all null.
\<close>

record item_view =
  iv_product_id :: "id option"
  iv_name :: "string option"
  iv_quantity :: "int option"
  iv_unit_price :: "int option"

record contact =
  c_name :: string
  c_email :: string
  c_phone :: "string option"

record order_data =
  od_order_id :: id
  od_items :: "item_view list"
  od_user :: "contact option"
  od_shipping_address :: string

definition order_items_view :: "id \<Rightarrow> db \<Rightarrow> item_view list" where
  "order_items_view oid d =
     (let lines = filter (\<lambda>oi. oi_order_id oi = oid) (order_items d) in
      if lines = [] then
        [\<lparr>iv_product_id = None, iv_name = None, iv_quantity = None, iv_unit_price = None\<rparr>]
      else
        map (\<lambda>oi. \<lparr>iv_product_id = Some (oi_product_id oi),
                    iv_name = map_option p_name (products d (oi_product_id oi)),
                    iv_quantity = Some (oi_quantity oi),
                    iv_unit_price = Some (oi_unit_price oi)\<rparr>) lines)"

text \<open>SELECT ... FROM orders o ... WHERE o.id = order id AND o.user_id = user id.\<close>

definition select_user_order :: "id \<Rightarrow> id \<Rightarrow> db \<Rightarrow> order_row option" where
  "select_user_order oid userId d =
     (case orders d oid of
        None \<Rightarrow> None
      | Some ord \<Rightarrow> if o_user_id ord = userId then Some ord else None)"

definition select_contact :: "id \<Rightarrow> db \<Rightarrow> contact option" where
  "select_contact userId d =
     map_option (\<lambda>u. \<lparr>c_name = u_name u, c_email = u_email u, c_phone = u_phone u\<rparr>)
       (find (\<lambda>u. u_id u = userId) (users d))"

text \<open>
  \<open>MercadoPagoService.createPreference\<close>: the request is built from the order data
  (reading the name of an absent user throws before anything is sent), the gateway
  answers or fails, and every failure is rethrown as one generic error. The second
  component lists the requests that went out to the gateway.
\<close>

definition createPreference ::
  "(order_data \<Rightarrow> error + preference) \<Rightarrow> order_data \<Rightarrow> (error + preference) \<times> order_data list" where
  "createPreference gateway orderData =
     (case od_user orderData of
        None \<Rightarrow> (Inl Processing_error, [])
      | Some _ \<Rightarrow>
          (case gateway orderData of
             Inl e \<Rightarrow> (Inl Processing_error, [orderData])
           | Inr result \<Rightarrow> (Inr result, [orderData])))"

text \<open>
  \<open>createPaymentPreference\<close>; \<open>uuid\<close> is the identifier that the database generates
  for the inserted row and \<open>now\<close> its CURRENT_TIMESTAMP; \<open>userId\<close> is the id of the
  authenticated user, which the middleware took from the users table. An order id that
  the database cannot read as a UUID makes the first query fail, and the handler's
  catch answers 500.
\<close>

definition createPaymentPreference ::
  "(string \<Rightarrow> bool) \<Rightarrow> (order_data \<Rightarrow> error + preference) \<Rightarrow> id \<Rightarrow> nat \<Rightarrow> id \<Rightarrow> id \<Rightarrow> db
     \<Rightarrow> response \<times> db \<times> order_data list" where
  "createPaymentPreference is_uuid gateway uuid now order_id userId d =
     (if \<not> is_uuid order_id then (server_error Error_procesando_solicitud_de_pago, d, [])
      else
      case select_user_order order_id userId d of
        None \<Rightarrow> (not_found Orden_no_encontrada, d, [])
      | Some ord \<Rightarrow>
          if o_status ord \<noteq> Pendiente then (bad_request Orden_no_valida_para_pago, d, [])
          else
            let orderData = \<lparr>od_order_id = order_id,
                             od_items = order_items_view order_id d,
                             od_user = select_contact userId d,
                             od_shipping_address = o_shipping_address ord\<rparr>
            in case createPreference gateway orderData of
                 (Inl e, sent) \<Rightarrow> (server_error Error_procesando_solicitud_de_pago, d, sent)
               | (Inr pref, sent) \<Rightarrow>
                   ((200, Preference_data pref),
                    d\<lparr>payments := payments d @
                        [\<lparr>pay_id = uuid, pay_order_id = order_id, pay_method = ''mercadopago'',
                          pay_amount = o_total ord, pay_currency = ''ARS'',
                          pay_status = ''pending'',
                          pay_external_id = Some (preference_id pref),
                          pay_gateway_response = None, pay_created_at = now,
                          pay_updated_at = now\<rparr>]\<rparr>,
                    sent))"

text \<open>
  \<open>checkPaymentStatus\<close>: SELECT p.*, o.status FROM payments p JOIN orders o ON
  p.order_id = o.id WHERE p.order_id = order id AND o.user_id = user id ORDER BY
  p.created_at DESC LIMIT 1. Among rows of equal \<open>created_at\<close> the database may return
  any; the model returns the one stored first. An order id that the database cannot
  read as a UUID makes the query fail, and the handler's catch answers 500.
\<close>

definition joined_payment :: "id \<Rightarrow> id \<Rightarrow> db \<Rightarrow> payment_row \<Rightarrow> (payment_row \<times> order_status) option" where
  "joined_payment oid userId d p =
     (if pay_order_id p = oid then
        (case orders d (pay_order_id p) of
           None \<Rightarrow> None
         | Some ord \<Rightarrow> if o_user_id ord = userId then Some (p, o_status ord) else None)
      else None)"

fun most_recent :: "(payment_row \<times> order_status) list \<Rightarrow> (payment_row \<times> order_status) option" where
  "most_recent [] = None"
| "most_recent (r # rs) =
     (case most_recent rs of
        None \<Rightarrow> Some r
      | Some r' \<Rightarrow> if pay_created_at (fst r) < pay_created_at (fst r') then Some r' else Some r)"

definition checkPaymentStatus :: "(string \<Rightarrow> bool) \<Rightarrow> id \<Rightarrow> id \<Rightarrow> db \<Rightarrow> response \<times> db" where
  "checkPaymentStatus is_uuid order_id userId d =
     (if \<not> is_uuid order_id then (server_error Error_verificando_el_pago, d)
      else
      case most_recent (List.map_filter (joined_payment order_id userId d) (payments d)) of
        None \<Rightarrow> (not_found Pago_no_encontrado, d)
      | Some (payment, order_status) \<Rightarrow>
          ((200, Payment_status
                   \<lparr>pv_payment_id = pay_id payment, pv_status = pay_status payment,
                    pv_amount = pay_amount payment, pv_currency = pay_currency payment,
                    pv_order_status = order_status,
                    pv_created_at = pay_created_at payment,
                    pv_updated_at = pay_updated_at payment\<rparr>), d))"

text \<open>
  \<open>processManualPayment\<close> reads three fields of the request body; whatever else the
  client put into the body is in \<open>m_other_fields\<close>. An order id that the database
  cannot read as a UUID makes the query fail, and a body without a payment method
  violates the NOT NULL constraint of \<open>payments.payment_method\<close>; the handler's
  catch answers 500 to both.
\<close>

record manual_request =
  m_order_id :: id
  m_payment_method :: "string option"
  m_payment_proof :: "string option"
  m_other_fields :: "(string \<times> string) list"

definition select_pending_order :: "id \<Rightarrow> id \<Rightarrow> db \<Rightarrow> order_row option" where
  "select_pending_order oid userId d =
     (case orders d oid of
        None \<Rightarrow> None
      | Some ord \<Rightarrow> if o_user_id ord = userId \<and> o_status ord = Pendiente then Some ord else None)"

definition processManualPayment ::
  "(string \<Rightarrow> bool) \<Rightarrow> id \<Rightarrow> nat \<Rightarrow> manual_request \<Rightarrow> id \<Rightarrow> db \<Rightarrow> response \<times> db" where
  "processManualPayment is_uuid uuid now req userId d =
     (if \<not> is_uuid (m_order_id req) then (server_error Error_procesando_el_pago, d)
      else
      case select_pending_order (m_order_id req) userId d of
        None \<Rightarrow> (not_found Orden_no_encontrada_o_no_valida, d)
      | Some ord \<Rightarrow>
          (case m_payment_method req of
             None \<Rightarrow> (server_error Error_procesando_el_pago, d)
           | Some payment_method \<Rightarrow>
               ((200, Manual_payment Comprobante_enviado uuid ''pending''),
                d\<lparr>payments := payments d @
                    [\<lparr>pay_id = uuid, pay_order_id = m_order_id req,
                      pay_method = payment_method, pay_amount = o_total ord,
                      pay_currency = ''ARS'', pay_status = ''pending'',
                      pay_external_id = None,
                      pay_gateway_response = Some (Manual_proof (m_payment_proof req) now),
                      pay_created_at = now, pay_updated_at = now\<rparr>]\<rparr>)))"

section \<open>Identity and sessions (controllers/authController.js, middleware/auth.js)\<close>

text \<open>
  What a request takes from outside the database: the clock, the identifier generated
  for an inserted row, and the libraries (bcrypt with its random salt, jsonwebtoken
  with the signing secret), whose mechanics are out of scope. \<open>jwt_sign\<close> gets the
  payload (user id, email, role) and the instant of issue that jsonwebtoken writes
  into the token, \<open>Math.floor(Date.now() / 1000)\<close>: seconds, not milliseconds. The
  lower-casing of the runtime, \<open>String.prototype.toLowerCase\<close>, is a parameter
  \<open>toLowerCase\<close> of the handlers that use it.
\<close>

record auth_env =
  clock :: nat
  new_id :: id
  bcrypt_hash :: "string \<Rightarrow> string"
  bcrypt_compare :: "string \<Rightarrow> string \<Rightarrow> bool"
  jwt_sign :: "id \<Rightarrow> string \<Rightarrow> role \<Rightarrow> nat \<Rightarrow> string"
  jwt_verify :: "string \<Rightarrow> error + id"

definition issued_at :: "auth_env \<Rightarrow> nat" where
  "issued_at env = clock env div 1000"

text \<open>7 * 24 * 60 * 60 * 1000 milliseconds.\<close>

definition seven_days :: nat where
  "seven_days = 7 * 24 * 60 * 60 * 1000"

text \<open>
  The body of a registration as the handler receives it; \<open>r_valid\<close> says that
  \<open>validationResult\<close> found no error.
\<close>

record register_request =
  r_valid :: bool
  r_name :: string
  r_email :: string
  r_password :: string
  r_phone :: "string option"
  r_address :: "string option"

definition view_of :: "user_row \<Rightarrow> user_view" where
  "view_of u = \<lparr>uv_id = u_id u, uv_name = u_name u, uv_email = u_email u, uv_role = u_role u\<rparr>"

definition new_session :: "auth_env \<Rightarrow> id \<Rightarrow> string \<Rightarrow> session_row" where
  "new_session env userId token =
     \<lparr>s_user_id = userId, s_token = token, s_expires_at = clock env + seven_days\<rparr>"

definition register ::
  "(string \<Rightarrow> string) \<Rightarrow> auth_env \<Rightarrow> register_request \<Rightarrow> db \<Rightarrow> response \<times> db" where
  "register toLowerCase env req d =
     (if \<not> r_valid req then (bad_request Datos_invalidos, d)
      else if list_ex (\<lambda>u. u_email u = toLowerCase (r_email req)) (users d)
      then (bad_request Email_ya_registrado, d)
      else
        let user = \<lparr>u_id = new_id env, u_name = r_name req,
                    u_email = toLowerCase (r_email req),
                    u_password = bcrypt_hash env (r_password req), u_role = Customer,
                    u_phone = r_phone req, u_address = r_address req\<rparr>;
            token = jwt_sign env (u_id user) (u_email user) (u_role user) (issued_at env)
        in ((201, Auth_data Usuario_registrado (view_of user) token),
            d\<lparr>users := users d @ [user],
              user_sessions := user_sessions d @ [new_session env (u_id user) token]\<rparr>))"

record login_request =
  l_valid :: bool
  l_email :: string
  l_password :: string

definition login ::
  "(string \<Rightarrow> string) \<Rightarrow> auth_env \<Rightarrow> login_request \<Rightarrow> db \<Rightarrow> response \<times> db" where
  "login toLowerCase env req d =
     (if \<not> l_valid req then (bad_request Datos_invalidos, d)
      else
        case find (\<lambda>u. u_email u = toLowerCase (l_email req)) (users d) of
          None \<Rightarrow> (unauthorized Credenciales_invalidas, d)
        | Some user \<Rightarrow>
            if \<not> bcrypt_compare env (l_password req) (u_password user)
            then (unauthorized Credenciales_invalidas, d)
            else
              let token = jwt_sign env (u_id user) (u_email user) (u_role user) (issued_at env)
              in ((200, Auth_data Inicio_de_sesion_exitoso (view_of user) token),
                  d\<lparr>user_sessions :=
                      filter (\<lambda>s. s_user_id s \<noteq> u_id user) (user_sessions d)
                        @ [new_session env (u_id user) token]\<rparr>))"

text \<open>
  \<open>authenticateToken\<close>, given the token of the Authorization header (absent, or the
  text after the first blank). It either answers the request itself or hands the
  resolved user on. A decoded user id that the database cannot read as a UUID makes
  the last query fail, and the catch answers 500.
\<close>

definition authenticateToken ::
  "(string \<Rightarrow> bool) \<Rightarrow> auth_env \<Rightarrow> string option \<Rightarrow> db \<Rightarrow> (response + user_view) \<times> db" where
  "authenticateToken is_uuid env header_token d =
     (case header_token of
        None \<Rightarrow> (Inl (unauthorized Token_requerido), d)
      | Some token \<Rightarrow>
          if token = [] then (Inl (unauthorized Token_requerido), d)
          else
            case find (\<lambda>s. s_token s = token) (user_sessions d) of
              None \<Rightarrow> (Inl (unauthorized Token_invalido), d)
            | Some session \<Rightarrow>
                if s_expires_at session < clock env then
                  (Inl (unauthorized Token_expirado),
                   d\<lparr>user_sessions := filter (\<lambda>s. s_token s \<noteq> token) (user_sessions d)\<rparr>)
                else
                  case jwt_verify env token of
                    Inl JsonWebTokenError \<Rightarrow> (Inl (unauthorized Token_invalido), d)
                  | Inl TokenExpiredError \<Rightarrow> (Inl (unauthorized Token_expirado), d)
                  | Inl _ \<Rightarrow> (Inl (server_error Error_interno_del_servidor), d)
                  | Inr userId \<Rightarrow>
                      if \<not> is_uuid userId
                      then (Inl (server_error Error_interno_del_servidor), d)
                      else
                        (case find (\<lambda>u. u_id u = userId) (users d) of
                           None \<Rightarrow> (Inl (unauthorized Usuario_no_encontrado), d)
                         | Some u \<Rightarrow> (Inr (view_of u), d)))"

section \<open>The database a committed reconciliation leaves\<close>

text \<open>
  The statements of the callback, composed: what \<open>reconcile\<close> has written when
  every statement succeeded (lemma \<open>reconcile_commits\<close> below). \<open>derived_status\<close> is
  the value of \<open>orderStatus\<close> at the end of the callback.
\<close>

definition derived_status :: "string \<Rightarrow> order_status" where
  "derived_status status =
     (if isPaymentApproved status then Pagado
      else if isPaymentRejected status then Cancelado
      else Pendiente)"

definition committed_state :: "nat \<Rightarrow> payment_data \<Rightarrow> db \<Rightarrow> db" where
  "committed_state now pd d =
     (let d1 = d\<lparr>payments := map (set_payment now pd) (payments d)\<rparr>;
          d2 = (if isPaymentApproved (pd_status pd)
                then fold reduce_stock_of (select_order_items (pd_external_reference pd) d1) d1
                else d1)
      in update_order now (derived_status (pd_status pd)) pd d2)"

section \<open>A small shop, for concrete runs\<close>

definition no_faults :: "nat \<Rightarrow> bool" where
  "no_faults k = False"

definition fault_at :: "nat \<Rightarrow> nat \<Rightarrow> bool" where
  "fault_at j k = (k = j)"

text \<open>
  In the small shop short names stand for the UUIDs; these are the texts its database
  reads as one.
\<close>

definition shop_id :: "string \<Rightarrow> bool" where
  "shop_id i = (i \<in> set [''ana'', ''leo'', ''eva'', ''o1'', ''o2'', ''p1'', ''pay1'', ''pay2'', ''pay3''])"

text \<open>The gateway knows payment 777, made for order o1, in the given status.\<close>

definition gateway_says :: "string \<Rightarrow> id \<Rightarrow> error + payment_data" where
  "gateway_says status i =
     (if i = ''777'' then
        Inr \<lparr>pd_payment_id = ''777'', pd_status = status, pd_external_reference = ''o1'',
             pd_details = ''accredited''\<rparr>
      else Inl Gateway_failure)"

definition payment_777 :: notification where
  "payment_777 = \<lparr>n_type = ''payment'', n_data_id = Some ''777''\<rparr>"

text \<open>
  Two customers; one product p1 of the given kind and stock; the pending order o1 of
  ana, with one line item on p1 for each of the given quantities; two payment attempts
  for o1, a gateway preference and a later bank transfer.
\<close>

definition shop :: "product_type \<Rightarrow> int \<Rightarrow> int list \<Rightarrow> db" where
  "shop kind stock quantities =
     \<lparr>users =
        [\<lparr>u_id = ''ana'', u_name = ''Ana'', u_email = ''ana@example.com'',
          u_password = ''#Secreto1'', u_role = Customer, u_phone = None, u_address = None\<rparr>,
         \<lparr>u_id = ''leo'', u_name = ''Leo'', u_email = ''leo@example.com'',
          u_password = ''#Secreto2'', u_role = Customer, u_phone = None, u_address = None\<rparr>],
      products =
        [''p1'' \<mapsto> \<lparr>p_name = ''PlayStation 5'', p_status = Disponible,
                    p_product_type = kind, p_stock = stock\<rparr>],
      orders =
        [''o1'' \<mapsto> \<lparr>o_user_id = ''ana'', o_status = Pendiente, o_total = 4200,
                    o_shipping_address = ''Calle 1'', o_payment_id = None,
                    o_updated_at = 4\<rparr>],
      order_items =
        map (\<lambda>q. \<lparr>oi_order_id = ''o1'', oi_product_id = ''p1'', oi_quantity = q,
                   oi_unit_price = 1400\<rparr>) quantities,
      payments =
        [\<lparr>pay_id = ''pay1'', pay_order_id = ''o1'', pay_method = ''mercadopago'',
          pay_amount = 4200, pay_currency = ''ARS'', pay_status = ''pending'',
          pay_external_id = Some ''pref-1'', pay_gateway_response = None,
          pay_created_at = 5, pay_updated_at = 5\<rparr>,
         \<lparr>pay_id = ''pay2'', pay_order_id = ''o1'', pay_method = ''transferencia'',
          pay_amount = 4200, pay_currency = ''ARS'', pay_status = ''pending'',
          pay_external_id = None,
          pay_gateway_response = Some (Manual_proof (Some ''recibo.png'') 9),
          pay_created_at = 9, pay_updated_at = 9\<rparr>],
      user_sessions = []\<rparr>"

definition preference_gateway :: "order_data \<Rightarrow> error + preference" where
  "preference_gateway orderData =
     Inr \<lparr>preference_id = ''pref-2'', init_point = ''https://pay/pref-2'',
          sandbox_init_point = ''https://sandbox/pref-2''\<rparr>"

text \<open>
  Stand-ins for the libraries. A token is the payload and the instant of issue in
  seconds, written out (jsonwebtoken signs equal payloads at equal instants to equal
  tokens); a hash is the password behind a mark.
\<close>

definition role_text :: "role \<Rightarrow> string" where
  "role_text r = (case r of Customer \<Rightarrow> ''customer'' | Admin \<Rightarrow> ''admin'')"

definition library :: "nat \<Rightarrow> id \<Rightarrow> auth_env" where
  "library now uuid =
     \<lparr>clock = now, new_id = uuid,
      bcrypt_hash = (\<lambda>password. CHR ''#'' # password),
      bcrypt_compare = (\<lambda>password hashed. hashed = CHR ''#'' # password),
      jwt_sign = (\<lambda>userId email role iat.
                    userId @ '':'' @ email @ '':'' @ role_text role @ ''.''
                      @ replicate iat CHR ''i''),
      jwt_verify = (\<lambda>token. Inr (takeWhile (\<lambda>c. c \<noteq> CHR '':'') token))\<rparr>"

text \<open>
  The emails of the small shop are ASCII text, on which \<open>toLowerCase\<close> maps the
  letters A to Z to a to z and leaves every other character.
\<close>

definition lower_char :: "char \<Rightarrow> char" where
  "lower_char c =
     (let n = (of_char c :: nat) in if 65 \<le> n \<and> n \<le> 90 then char_of (n + 32) else c)"

definition ascii_lower :: "string \<Rightarrow> string" where
  "ascii_lower s = map lower_char s"

section \<open>What a run of the reconciliation does\<close>

text \<open>A statement that went through was not faulted, and was the next one.\<close>

lemma client_query_Inr:
  "client_query faults stmt t = Inr (r, t') \<Longrightarrow>
     \<not> faults (issued t) \<and> stmt (work t) = Inr (r, work t') \<and> issued t' = Suc (issued t)"
  by (auto simp: client_query_def split: if_splits sum.splits prod.splits)

lemma uuid_param_Inr:
  "uuid_param is_uuid i stmt d = Inr x \<Longrightarrow> is_uuid i \<and> stmt d = Inr x"
  by (simp add: uuid_param_def split: if_splits)

lemma no_fault_from:
  "\<not> faults i \<Longrightarrow> \<forall>k. Suc i \<le> k \<and> k < j \<longrightarrow> \<not> faults k \<Longrightarrow>
     \<forall>k. i \<le> k \<and> k < j \<longrightarrow> \<not> faults k"
  by (metis Suc_leI le_neq_implies_less)

lemma reduce_stock_Inr:
  "reduce_stock faults items t = Inr (u, t') \<Longrightarrow>
     work t' = fold reduce_stock_of items (work t) \<and> issued t' = issued t + length items
     \<and> (\<forall>k. issued t \<le> k \<and> k < issued t' \<longrightarrow> \<not> faults k)"
proof (induction items arbitrary: t)
  case Nil
  then show ?case by auto
next
  case (Cons item items)
  from Cons.prems obtain t1 where q: "client_query faults (writes (reduce_stock_of item)) t = Inr ((), t1)"
    and r: "reduce_stock faults items t1 = Inr (u, t')"
    by (auto simp: await_def split: sum.splits)
  from client_query_Inr[OF q] have a: "\<not> faults (issued t)" "work t1 = reduce_stock_of item (work t)"
    "issued t1 = Suc (issued t)" by (auto simp: writes_def)
  from Cons.IH[OF r] a show ?case
    using no_fault_from[of faults "issued t" "issued t'"] by simp
qed

lemma order_status_for_Inr:
  assumes "order_status_for is_uuid faults pd t = Inr (st, t')"
  shows "st = derived_status (pd_status pd)"
    and "work t' = (if isPaymentApproved (pd_status pd)
                 then fold reduce_stock_of (select_order_items (pd_external_reference pd) (work t)) (work t)
                 else work t)"
    and "issued t' = issued t + (if isPaymentApproved (pd_status pd)
                 then Suc (length (select_order_items (pd_external_reference pd) (work t))) else 0)"
    and "\<forall>k. issued t \<le> k \<and> k < issued t' \<longrightarrow> \<not> faults k"
proof -
  show "st = derived_status (pd_status pd)"
    using assms by (auto simp: order_status_for_def derived_status_def await_def split: if_splits sum.splits prod.splits)
  show "work t' = (if isPaymentApproved (pd_status pd)
                 then fold reduce_stock_of (select_order_items (pd_external_reference pd) (work t)) (work t)
                 else work t)"
    using assms
    by (auto simp: order_status_for_def await_def reads_def split: if_splits sum.splits prod.splits
        dest!: client_query_Inr reduce_stock_Inr uuid_param_Inr)
  show "issued t' = issued t + (if isPaymentApproved (pd_status pd)
                 then Suc (length (select_order_items (pd_external_reference pd) (work t))) else 0)"
    using assms
    by (auto simp: order_status_for_def await_def reads_def split: if_splits sum.splits prod.splits
        dest!: client_query_Inr reduce_stock_Inr uuid_param_Inr)
  show "\<forall>k. issued t \<le> k \<and> k < issued t' \<longrightarrow> \<not> faults k"
  proof (cases "isPaymentApproved (pd_status pd)")
    case False
    then show ?thesis using assms by (auto simp: order_status_for_def split: if_splits)
  next
    case True
    with assms obtain rows t1 where
      q: "client_query faults (uuid_param is_uuid (pd_external_reference pd)
            (reads (select_order_items (pd_external_reference pd)))) t = Inr (rows, t1)"
      and r: "reduce_stock faults rows t1 = Inr ((), t')"
      by (auto simp: order_status_for_def await_def split: sum.splits prod.splits)
    from client_query_Inr[OF q] reduce_stock_Inr[OF r] show ?thesis
      using no_fault_from[of faults "issued t" "issued t'"] by simp
  qed
qed

lemma joined_item_payments [simp]:
  "joined_item oid (d\<lparr>payments := ps\<rparr>) = joined_item oid d"
  by (rule ext) (simp add: joined_item_def)

lemma select_order_items_payments [simp]:
  "select_order_items oid (d\<lparr>payments := ps\<rparr>) = select_order_items oid d"
  by (simp add: select_order_items_def)

lemma update_payments_Inr:
  "update_payments now pd d = Inr (u, d') \<Longrightarrow>
     d' = d\<lparr>payments := map (set_payment now pd) (payments d)\<rparr>
     \<and> \<not> (list_ex (payment_matches pd) (payments d) \<and> \<not> payment_status_ok (pd_status pd))"
  by (auto simp: update_payments_def writes_def split: if_splits)

lemma reconcile_commits:
  assumes "reconcile is_uuid faults now pd t = Inr (u, t')"
  shows "work t' = committed_state now pd (work t)"
    and "issued t' = issued t + 2 + (if isPaymentApproved (pd_status pd)
           then Suc (length (select_order_items (pd_external_reference pd) (work t))) else 0)"
    and "\<forall>k. issued t \<le> k \<and> k < issued t' \<longrightarrow> \<not> faults k"
    and "\<not> (list_ex (payment_matches pd) (payments (work t)) \<and> \<not> payment_status_ok (pd_status pd))"
    and "is_uuid (pd_external_reference pd)"
proof -
  from assms obtain t1 st t2 where
    q1: "client_query faults (uuid_param is_uuid (pd_external_reference pd) (update_payments now pd)) t
           = Inr ((), t1)" and
    q2: "order_status_for is_uuid faults pd t1 = Inr (st, t2)" and
    q3: "client_query faults (uuid_param is_uuid (pd_external_reference pd)
           (writes (update_order now st pd))) t2 = Inr ((), t')"
    by (auto simp: reconcile_def await_def split: sum.splits prod.splits)
  note a = client_query_Inr[OF q1]
  note b = order_status_for_Inr[OF q2]
  note c = client_query_Inr[OF q3]
  from a uuid_param_Inr[of is_uuid "pd_external_reference pd" "update_payments now pd" "work t" "((), work t1)"]
  have id: "is_uuid (pd_external_reference pd)"
    and up: "update_payments now pd (work t) = Inr ((), work t1)" by auto
  from up have w1: "work t1 = (work t)\<lparr>payments := map (set_payment now pd) (payments (work t))\<rparr>"
    and chk: "\<not> (list_ex (payment_matches pd) (payments (work t)) \<and> \<not> payment_status_ok (pd_status pd))"
    using update_payments_Inr[of now pd "work t" "()" "work t1"] by auto
  from c id have w3: "work t' = update_order now st pd (work t2)"
    by (simp add: writes_def uuid_param_def)
  show "work t' = committed_state now pd (work t)"
    using w1 w3 b(1) b(2) by (simp add: committed_state_def Let_def)
  show "issued t' = issued t + 2 + (if isPaymentApproved (pd_status pd)
           then Suc (length (select_order_items (pd_external_reference pd) (work t))) else 0)"
    using a c b(3) w1 by simp
  show "\<not> (list_ex (payment_matches pd) (payments (work t)) \<and> \<not> payment_status_ok (pd_status pd))"
    by (rule chk)
  show "is_uuid (pd_external_reference pd)" by (rule id)
  have "\<forall>k. issued t2 \<le> k \<and> k < issued t' \<longrightarrow> \<not> faults k"
    using c by (auto simp: less_Suc_eq_le)
  with b(4) have "\<forall>k. issued t1 \<le> k \<and> k < issued t' \<longrightarrow> \<not> faults k"
    by (metis not_le_imp_less)
  with a show "\<forall>k. issued t \<le> k \<and> k < issued t' \<longrightarrow> \<not> faults k"
    using no_fault_from[of faults "issued t" "issued t'"] by simp
qed

text \<open>When no statement is rejected, the callback runs to its end.\<close>

lemma reduce_stock_runs:
  "\<forall>k. \<not> faults k \<Longrightarrow> \<exists>t'. reduce_stock faults items t = Inr ((), t')"
  by (induction items arbitrary: t) (simp_all add: await_def client_query_def writes_def)

lemma reconcile_runs:
  assumes "\<forall>k. \<not> faults k" and "is_uuid (pd_external_reference pd)"
    and "payment_status_ok (pd_status pd) \<or> \<not> list_ex (payment_matches pd) (payments (work t))"
  shows "\<exists>t'. reconcile is_uuid faults now pd t = Inr ((), t')"
proof -
  let ?ref = "pd_external_reference pd"
  obtain t1 where q1: "client_query faults (uuid_param is_uuid ?ref (update_payments now pd)) t
                         = Inr ((), t1)"
    using assms by (auto simp: client_query_def uuid_param_def update_payments_def writes_def)
  obtain st t2 where q2: "order_status_for is_uuid faults pd t1 = Inr (st, t2)"
  proof (cases "isPaymentApproved (pd_status pd)")
    case False
    then show ?thesis using that by (cases "isPaymentRejected (pd_status pd)") (simp_all add: order_status_for_def)
  next
    case True
    obtain t1' where s: "client_query faults (uuid_param is_uuid ?ref (reads (select_order_items ?ref))) t1
                       = Inr (select_order_items ?ref (work t1), t1')"
      using assms(1,2) by (simp add: client_query_def uuid_param_def reads_def)
    from reduce_stock_runs[OF assms(1)] obtain t2 where
      "reduce_stock faults (select_order_items ?ref (work t1)) t1' = Inr ((), t2)" by blast
    with s True show ?thesis using that by (simp add: order_status_for_def await_def)
  qed
  obtain t' where q3: "client_query faults (uuid_param is_uuid ?ref (writes (update_order now st pd))) t2
                         = Inr ((), t')"
    using assms(1,2) by (simp add: client_query_def uuid_param_def writes_def)
  from q1 q2 q3 show ?thesis by (simp add: reconcile_def await_def)
qed

lemma transaction_Inl:
  "fst (transaction faults callback d) = Inl e \<Longrightarrow> snd (transaction faults callback d) = d"
  by (auto simp: transaction_def split: if_splits sum.splits prod.splits)

lemma transaction_Inr:
  "fst (transaction faults callback d) = Inr r \<Longrightarrow>
     \<exists>t. callback \<lparr>work = d, issued = 1\<rparr> = Inr (r, t) \<and> \<not> faults 0 \<and> \<not> faults (issued t)
         \<and> snd (transaction faults callback d) = work t"
  by (auto simp: transaction_def split: if_splits sum.splits prod.splits)

lemma handleWebhook_outcome:
  assumes "processWebhook getPayment n = Inr (Some pd)"
  shows "handleWebhook is_uuid getPayment faults now n d =
           (case fst (transaction faults (reconcile is_uuid faults now pd) d) of
              Inl e \<Rightarrow> ((500, Text ''Error''), d)
            | Inr u \<Rightarrow> ((200, Text ''OK''), committed_state now pd d))"
proof (cases "fst (transaction faults (reconcile is_uuid faults now pd) d)")
  case (Inl e)
  with transaction_Inl[OF Inl] assms show ?thesis
    by (auto simp: handleWebhook_def split: prod.splits)
next
  case (Inr u)
  from transaction_Inr[OF Inr] obtain t where
    r: "reconcile is_uuid faults now pd \<lparr>work = d, issued = 1\<rparr> = Inr (u, t)"
    and s: "snd (transaction faults (reconcile is_uuid faults now pd) d) = work t" by blast
  from reconcile_commits(1)[OF r] s
  have "snd (transaction faults (reconcile is_uuid faults now pd) d) = committed_state now pd d"
    by simp
  with Inr assms show ?thesis
    by (auto simp: handleWebhook_def split: prod.splits)
qed

lemma handleWebhook_acknowledged:
  assumes "processWebhook getPayment n = Inr (Some pd)"
    and "fst (handleWebhook is_uuid getPayment faults now n d) = (200, Text ''OK'')"
  shows "snd (handleWebhook is_uuid getPayment faults now n d) = committed_state now pd d"
  using assms(2) unfolding handleWebhook_outcome[OF assms(1)]
  by (simp split: sum.splits)

lemma handleWebhook_unacknowledged:
  assumes "processWebhook getPayment n = Inr (Some pd)"
    and "fst (handleWebhook is_uuid getPayment faults now n d) \<noteq> (200, Text ''OK'')"
  shows "handleWebhook is_uuid getPayment faults now n d = ((500, Text ''Error''), d)"
  using assms(2) unfolding handleWebhook_outcome[OF assms(1)]
  by (simp split: sum.splits)

lemma handleWebhook_runs:
  assumes "processWebhook getPayment n = Inr (Some pd)"
    and "\<forall>k. \<not> faults k" and "is_uuid (pd_external_reference pd)"
    and "payment_status_ok (pd_status pd) \<or> \<not> list_ex (payment_matches pd) (payments d)"
  shows "fst (handleWebhook is_uuid getPayment faults now n d) = (200, Text ''OK'')"
proof -
  have "\<exists>t'. reconcile is_uuid faults now pd \<lparr>work = d, issued = 1\<rparr> = Inr ((), t')"
    by (rule reconcile_runs) (use assms in simp_all)
  then obtain t' where "reconcile is_uuid faults now pd \<lparr>work = d, issued = 1\<rparr> = Inr ((), t')"
    by blast
  with assms(2) have "fst (transaction faults (reconcile is_uuid faults now pd) d) = Inr ()"
    by (simp add: transaction_def)
  then show ?thesis
    unfolding handleWebhook_outcome[OF assms(1)] by simp
qed

lemma reduce_stock_of_payments:
  "reduce_stock_of item (d\<lparr>payments := ps\<rparr>) = (reduce_stock_of item d)\<lparr>payments := ps\<rparr>"
  by (simp add: reduce_stock_of_def update_product_def Let_def split: option.splits)

lemma fold_reduce_stock_payments:
  "fold reduce_stock_of rows (d\<lparr>payments := ps\<rparr>) = (fold reduce_stock_of rows d)\<lparr>payments := ps\<rparr>"
  by (induction rows arbitrary: d) (simp_all add: reduce_stock_of_payments)

lemma reduce_stock_of_frame:
  "users (reduce_stock_of item d) = users d"
  "orders (reduce_stock_of item d) = orders d"
  "order_items (reduce_stock_of item d) = order_items d"
  "payments (reduce_stock_of item d) = payments d"
  "user_sessions (reduce_stock_of item d) = user_sessions d"
  by (simp_all add: reduce_stock_of_def update_product_def Let_def split: option.splits)

lemma fold_reduce_stock_frame:
  "users (fold reduce_stock_of rows d) = users d"
  "orders (fold reduce_stock_of rows d) = orders d"
  "order_items (fold reduce_stock_of rows d) = order_items d"
  "payments (fold reduce_stock_of rows d) = payments d"
  "user_sessions (fold reduce_stock_of rows d) = user_sessions d"
  by (induction rows arbitrary: d) (simp_all add: reduce_stock_of_frame)

lemma update_order_frame:
  "users (update_order now st pd d) = users d"
  "products (update_order now st pd d) = products d"
  "order_items (update_order now st pd d) = order_items d"
  "payments (update_order now st pd d) = payments d"
  "user_sessions (update_order now st pd d) = user_sessions d"
  by (simp_all add: update_order_def split: option.splits)

lemma committed_payments:
  "payments (committed_state now pd d) = map (set_payment now pd) (payments d)"
  by (simp add: committed_state_def Let_def update_order_frame fold_reduce_stock_frame)

lemma committed_orders:
  "orders (committed_state now pd d) = orders (update_order now (derived_status (pd_status pd)) pd d)"
  by (simp add: committed_state_def Let_def update_order_def fold_reduce_stock_frame split: option.splits)

lemma committed_products:
  "products (committed_state now pd d) =
     (if isPaymentApproved (pd_status pd)
      then products (fold reduce_stock_of (select_order_items (pd_external_reference pd) d) d)
      else products d)"
  by (simp add: committed_state_def Let_def update_order_frame fold_reduce_stock_payments)

lemma committed_frame:
  "users (committed_state now pd d) = users d"
  "order_items (committed_state now pd d) = order_items d"
  "user_sessions (committed_state now pd d) = user_sessions d"
  by (simp_all add: committed_state_def Let_def update_order_frame fold_reduce_stock_frame)

text \<open>The definitions a concrete run of the webhook on the small shop unfolds.\<close>

lemmas shop_run = handleWebhook_def processWebhook_def gateway_says_def payment_777_def await_def
    transaction_def no_faults_def fault_at_def reconcile_def client_query_def update_payments_def shop_def
    payment_matches_def payment_status_ok_def set_payment_def writes_def reads_def uuid_param_def shop_id_def
    order_status_for_def isPaymentApproved_def isPaymentRejected_def select_order_items_def joined_item_def
    reduce_stock_of_def update_product_def update_order_def

section \<open>Claims about the webhook\<close>

text \<open>
  C3. Take a webhook whose payment the gateway resolved and whose external reference
  names an order. When no statement is rejected (the reference reads as a UUID, and the
  resolved status is one the CHECK constraint of payments admits or no payment row is
  written), the handler acknowledges. Whenever it acknowledges, the order has the
  status derived from the resolved payment status: approved gives paid, rejected or
  cancelled gives cancelled, anything else gives pending. Whenever it does not, it
  answers 500 and the database, the order with it, is as before; so an order that was
  pending is pending after a webhook of any other status, acknowledged or not. And
  when the status is not approved (so also when it is rejected) the products stay as
  they were.
\<close>

theorem webhook_order_status:
  assumes "processWebhook getPayment n = Inr (Some pd)"
    and "orders d (pd_external_reference pd) = Some ord"
  shows "((\<forall>k. \<not> faults k) \<and> is_uuid (pd_external_reference pd)
            \<and> (payment_status_ok (pd_status pd) \<or> \<not> list_ex (payment_matches pd) (payments d))
          \<longrightarrow> fst (handleWebhook is_uuid getPayment faults now n d) = (200, Text ''OK''))
         \<and> (fst (handleWebhook is_uuid getPayment faults now n d) = (200, Text ''OK'')
          \<longrightarrow> orders (snd (handleWebhook is_uuid getPayment faults now n d))
                  (pd_external_reference pd)
                = Some (ord\<lparr>o_status :=
                              (if pd_status pd = ''approved'' then Pagado
                               else if pd_status pd = ''rejected'' \<or> pd_status pd = ''cancelled''
                               then Cancelado else Pendiente),
                            o_payment_id := Some (pd_payment_id pd),
                            o_updated_at := now\<rparr>))
         \<and> (fst (handleWebhook is_uuid getPayment faults now n d) \<noteq> (200, Text ''OK'')
          \<longrightarrow> handleWebhook is_uuid getPayment faults now n d = ((500, Text ''Error''), d))
         \<and> (pd_status pd \<notin> set [''approved'', ''rejected'', ''cancelled'']
            \<and> o_status ord = Pendiente
          \<longrightarrow> map_option o_status
                (orders (snd (handleWebhook is_uuid getPayment faults now n d))
                   (pd_external_reference pd)) = Some Pendiente)
         \<and> (pd_status pd \<noteq> ''approved''
          \<longrightarrow> products (snd (handleWebhook is_uuid getPayment faults now n d)) = products d)"
proof (intro conjI impI)
  assume "(\<forall>k. \<not> faults k) \<and> is_uuid (pd_external_reference pd)
            \<and> (payment_status_ok (pd_status pd) \<or> \<not> list_ex (payment_matches pd) (payments d))"
  then show "fst (handleWebhook is_uuid getPayment faults now n d) = (200, Text ''OK'')"
    using handleWebhook_runs[OF assms(1), of faults is_uuid d now] by blast
next
  assume "fst (handleWebhook is_uuid getPayment faults now n d) = (200, Text ''OK'')"
  with assms(1) have "snd (handleWebhook is_uuid getPayment faults now n d) = committed_state now pd d"
    by (rule handleWebhook_acknowledged)
  then show "orders (snd (handleWebhook is_uuid getPayment faults now n d)) (pd_external_reference pd)
                = Some (ord\<lparr>o_status :=
                              (if pd_status pd = ''approved'' then Pagado
                               else if pd_status pd = ''rejected'' \<or> pd_status pd = ''cancelled''
                               then Cancelado else Pendiente),
                            o_payment_id := Some (pd_payment_id pd),
                            o_updated_at := now\<rparr>)"
    using assms(2)
    by (simp add: committed_orders update_order_def derived_status_def
        isPaymentApproved_def isPaymentRejected_def)
next
  assume "fst (handleWebhook is_uuid getPayment faults now n d) \<noteq> (200, Text ''OK'')"
  with assms(1) show "handleWebhook is_uuid getPayment faults now n d = ((500, Text ''Error''), d)"
    by (rule handleWebhook_unacknowledged)
next
  assume other: "pd_status pd \<notin> set [''approved'', ''rejected'', ''cancelled'']
            \<and> o_status ord = Pendiente"
  show "map_option o_status
          (orders (snd (handleWebhook is_uuid getPayment faults now n d))
             (pd_external_reference pd)) = Some Pendiente"
  proof (cases "fst (handleWebhook is_uuid getPayment faults now n d) = (200, Text ''OK'')")
    case True
    with assms(1) have "snd (handleWebhook is_uuid getPayment faults now n d) = committed_state now pd d"
      by (rule handleWebhook_acknowledged)
    with other assms(2) show ?thesis
      by (simp add: committed_orders update_order_def derived_status_def
          isPaymentApproved_def isPaymentRejected_def)
  next
    case False
    with assms(1) have "handleWebhook is_uuid getPayment faults now n d = ((500, Text ''Error''), d)"
      by (rule handleWebhook_unacknowledged)
    with other assms(2) show ?thesis by simp
  qed
next
  assume other: "pd_status pd \<noteq> ''approved''"
  show "products (snd (handleWebhook is_uuid getPayment faults now n d)) = products d"
  proof (cases "fst (handleWebhook is_uuid getPayment faults now n d) = (200, Text ''OK'')")
    case True
    with assms(1) have "snd (handleWebhook is_uuid getPayment faults now n d) = committed_state now pd d"
      by (rule handleWebhook_acknowledged)
    with other show ?thesis by (simp add: committed_products isPaymentApproved_def)
  next
    case False
    with assms(1) have "handleWebhook is_uuid getPayment faults now n d = ((500, Text ''Error''), d)"
      by (rule handleWebhook_unacknowledged)
    then show ?thesis by simp
  qed
qed

theorem webhook_order_status_witness:
  "(let run = (\<lambda>status. handleWebhook shop_id (gateway_says status) no_faults 20 payment_777
                          (shop Normal 5 [3]));
        order_after = (\<lambda>status. map_option o_status (orders (snd (run status)) ''o1''))
    in fst (run ''approved'') = (200, Text ''OK'') \<and> order_after ''approved'' = Some Pagado
       \<and> fst (run ''rejected'') = (200, Text ''OK'') \<and> order_after ''rejected'' = Some Cancelado
       \<and> products (snd (run ''rejected'')) = products (shop Normal 5 [3])
       \<and> fst (run ''cancelled'') = (200, Text ''OK'') \<and> order_after ''cancelled'' = Some Cancelado
       \<and> fst (run ''pending'') = (200, Text ''OK'') \<and> order_after ''pending'' = Some Pendiente
       \<and> run ''in_process'' = ((500, Text ''Error''), shop Normal 5 [3])
       \<and> order_after ''in_process'' = Some Pendiente)"
proof -
  let ?d = "shop Normal 5 [3]"
  let ?ord = "\<lparr>o_user_id = ''ana'', o_status = Pendiente, o_total = 4200,
               o_shipping_address = ''Calle 1'', o_payment_id = None, o_updated_at = 4\<rparr>"
  have facts:
    "(payment_status_ok status \<longrightarrow>
        fst (handleWebhook shop_id (gateway_says status) no_faults 20 payment_777 ?d) = (200, Text ''OK'')
        \<and> map_option o_status
            (orders (snd (handleWebhook shop_id (gateway_says status) no_faults 20 payment_777 ?d)) ''o1'')
          = Some (if status = ''approved'' then Pagado
                  else if status = ''rejected'' \<or> status = ''cancelled'' then Cancelado
                  else Pendiente))
     \<and> (fst (handleWebhook shop_id (gateway_says status) no_faults 20 payment_777 ?d) \<noteq> (200, Text ''OK'')
        \<longrightarrow> handleWebhook shop_id (gateway_says status) no_faults 20 payment_777 ?d
              = ((500, Text ''Error''), ?d))
     \<and> (status \<notin> set [''approved'', ''rejected'', ''cancelled''] \<longrightarrow>
        map_option o_status
          (orders (snd (handleWebhook shop_id (gateway_says status) no_faults 20 payment_777 ?d)) ''o1'')
          = Some Pendiente)
     \<and> (status \<noteq> ''approved'' \<longrightarrow>
        products (snd (handleWebhook shop_id (gateway_says status) no_faults 20 payment_777 ?d))
          = products ?d)" for status
  proof -
    let ?pd = "\<lparr>pd_payment_id = ''777'', pd_status = status, pd_external_reference = ''o1'',
                 pd_details = ''accredited''\<rparr>"
    have a: "processWebhook (gateway_says status) payment_777 = Inr (Some ?pd)"
      by (simp add: processWebhook_def gateway_says_def payment_777_def await_def)
    have b: "orders ?d (pd_external_reference ?pd) = Some ?ord"
      by (simp add: shop_def)
    have c: "(\<forall>k. \<not> no_faults k) \<and> shop_id (pd_external_reference ?pd)"
      by (simp add: no_faults_def shop_id_def)
    from webhook_order_status[OF a b, of no_faults shop_id 20] c show ?thesis
      by (cases "payment_status_ok status") simp_all
  qed
  have unacknowledged:
    "fst (handleWebhook shop_id (gateway_says ''in_process'') no_faults 20 payment_777 ?d)
       \<noteq> (200, Text ''OK'')"
    by (simp add: shop_run)
  show ?thesis
    unfolding Let_def
    using facts[of "''approved''"] facts[of "''rejected''"] facts[of "''cancelled''"]
      facts[of "''pending''"] facts[of "''in_process''"] unacknowledged
    by (auto simp: payment_status_ok_def)
qed

text \<open>
  C4. If the transaction of the reconciliation fails at any step, the database is left
  as it was and the handler answers 500, the signal on which the gateway delivers
  again. The steps that can fail: the transaction reports an error; one of the
  statements it sends, BEGIN and COMMIT included, is rejected (statement \<open>k\<close> among
  those the undisturbed run sends); the new payment status violates the CHECK
  constraint of a row it is written to; the external reference does not read as a
  UUID.
\<close>

theorem webhook_all_or_nothing:
  assumes "processWebhook getPayment n = Inr (Some pd)"
    and "(\<exists>e. fst (transaction faults (reconcile is_uuid faults now pd) d) = Inl e)
         \<or> (\<exists>k u t. reconcile is_uuid (\<lambda>k. False) now pd \<lparr>work = d, issued = 1\<rparr> = Inr (u, t)
                \<and> k \<le> issued t \<and> faults k)
         \<or> (list_ex (payment_matches pd) (payments d) \<and> \<not> payment_status_ok (pd_status pd))
         \<or> \<not> is_uuid (pd_external_reference pd)"
  shows "handleWebhook is_uuid getPayment faults now n d = ((500, Text ''Error''), d)"
proof -
  have "\<exists>e. fst (transaction faults (reconcile is_uuid faults now pd) d) = Inl e"
  proof (rule ccontr)
    assume no: "\<not> (\<exists>e. fst (transaction faults (reconcile is_uuid faults now pd) d) = Inl e)"
    then obtain u where "fst (transaction faults (reconcile is_uuid faults now pd) d) = Inr u"
      by (cases "fst (transaction faults (reconcile is_uuid faults now pd) d)") auto
    from transaction_Inr[OF this] obtain t' where
      r: "reconcile is_uuid faults now pd \<lparr>work = d, issued = 1\<rparr> = Inr (u, t')"
      and f0: "\<not> faults 0" and fc: "\<not> faults (issued t')" by blast
    note c = reconcile_commits[OF r]
    have all: "\<not> faults k" if "k \<le> issued t'" for k
    proof (cases "k = 0 \<or> k = issued t'")
      case True
      with f0 fc show ?thesis by auto
    next
      case False
      with that have "1 \<le> k \<and> k < issued t'" by auto
      with c(3) show ?thesis by simp
    qed
    from assms(2) no
    consider (fault) k u0 t where
        "reconcile is_uuid (\<lambda>k. False) now pd \<lparr>work = d, issued = 1\<rparr> = Inr (u0, t)"
        "k \<le> issued t" "faults k"
      | (check) "list_ex (payment_matches pd) (payments d) \<and> \<not> payment_status_ok (pd_status pd)"
      | (uuid) "\<not> is_uuid (pd_external_reference pd)"
      by blast
    then show False
    proof cases
      case fault
      from reconcile_commits(2)[OF fault(1)] c(2) have "issued t = issued t'" by simp
      with fault(2,3) all show False by simp
    next
      case check
      with c(4) show False by simp
    next
      case uuid
      with c(5) show False by simp
    qed
  qed
  then show ?thesis
    using handleWebhook_outcome[OF assms(1), of is_uuid faults now d] by auto
qed

theorem webhook_all_or_nothing_witness:
  "handleWebhook shop_id (gateway_says ''approved'') (fault_at 4) 20 payment_777 (shop Normal 5 [3])
     = ((500, Text ''Error''), shop Normal 5 [3])"
proof -
  let ?pd = "\<lparr>pd_payment_id = ''777'', pd_status = ''approved'', pd_external_reference = ''o1'',
       pd_details = ''accredited''\<rparr>"
  have a: "processWebhook (gateway_says ''approved'') payment_777 = Inr (Some ?pd)"
    by (simp add: processWebhook_def gateway_says_def payment_777_def await_def)
  have b: "\<exists>k u t. reconcile shop_id (\<lambda>k. False) 20 ?pd \<lparr>work = shop Normal 5 [3], issued = 1\<rparr>
                      = Inr (u, t)
                \<and> k \<le> issued t \<and> fault_at 4 k"
    by (simp add: shop_run)
  show ?thesis using webhook_all_or_nothing[OF a disjI2[OF disjI1[OF b]]] .
qed

text \<open>
  C5, as the specification states it, fails: the UPDATE also selects by order, so every
  payment attempt of the order is rewritten. In the shop neither row carries the
  gateway's payment id 777, the second is a bank transfer without any gateway
  reference, and both end up approved.
\<close>

theorem webhook_payment_rows_counterexample:
  "map pay_id (payments (shop Normal 5 [3])) = [''pay1'', ''pay2'']
   \<and> map pay_external_id (payments (shop Normal 5 [3])) = [Some ''pref-1'', None]
   \<and> map pay_status (payments (shop Normal 5 [3])) = [''pending'', ''pending'']
   \<and> map pay_status (payments (snd (handleWebhook shop_id (gateway_says ''approved'') no_faults 20
         payment_777 (shop Normal 5 [3])))) = [''approved'', ''approved'']"
  by (simp add: shop_run)

text \<open>
  C5, amended. An acknowledged webhook changes the status and the stored gateway
  payload (and with them the \<open>updated_at\<close> that the same UPDATE sets) of every payment
  row whose external id is the gateway's payment id or whose order is the order the
  payment refers to, so of all payment attempts of that order; every other payment row
  is left unchanged.
\<close>

theorem webhook_payment_rows:
  assumes "processWebhook getPayment n = Inr (Some pd)"
    and "fst (handleWebhook is_uuid getPayment faults now n d) = (200, Text ''OK'')"
  shows "payments (snd (handleWebhook is_uuid getPayment faults now n d)) =
           map (\<lambda>p. if pay_external_id p = Some (pd_payment_id pd)
                        \<or> pay_order_id p = pd_external_reference pd
                     then p\<lparr>pay_status := pd_status pd,
                             pay_gateway_response := Some (Gateway_payload pd),
                             pay_updated_at := now\<rparr>
                     else p) (payments d)"
proof -
  have "snd (handleWebhook is_uuid getPayment faults now n d) = committed_state now pd d"
    using assms by (rule handleWebhook_acknowledged)
  then show ?thesis
    by (simp add: committed_payments set_payment_def[abs_def] payment_matches_def)
qed

theorem webhook_payment_rows_witness:
  "payments (snd (handleWebhook shop_id (gateway_says ''approved'') no_faults 20 payment_777
      ((shop Normal 5 [3])\<lparr>payments := payments (shop Normal 5 [3]) @
          [\<lparr>pay_id = ''pay0'', pay_order_id = ''o2'', pay_method = ''efectivo'',
            pay_amount = 100, pay_currency = ''ARS'', pay_status = ''pending'',
            pay_external_id = None, pay_gateway_response = None,
            pay_created_at = 2, pay_updated_at = 2\<rparr>]\<rparr>))) =
     (let pd = \<lparr>pd_payment_id = ''777'', pd_status = ''approved'', pd_external_reference = ''o1'',
                 pd_details = ''accredited''\<rparr> in
      [\<lparr>pay_id = ''pay1'', pay_order_id = ''o1'', pay_method = ''mercadopago'',
        pay_amount = 4200, pay_currency = ''ARS'', pay_status = ''approved'',
        pay_external_id = Some ''pref-1'', pay_gateway_response = Some (Gateway_payload pd),
        pay_created_at = 5, pay_updated_at = 20\<rparr>,
       \<lparr>pay_id = ''pay2'', pay_order_id = ''o1'', pay_method = ''transferencia'',
        pay_amount = 4200, pay_currency = ''ARS'', pay_status = ''approved'',
        pay_external_id = None, pay_gateway_response = Some (Gateway_payload pd),
        pay_created_at = 9, pay_updated_at = 20\<rparr>,
       \<lparr>pay_id = ''pay0'', pay_order_id = ''o2'', pay_method = ''efectivo'',
        pay_amount = 100, pay_currency = ''ARS'', pay_status = ''pending'',
        pay_external_id = None, pay_gateway_response = None,
        pay_created_at = 2, pay_updated_at = 2\<rparr>])"
proof -
  let ?pd = "\<lparr>pd_payment_id = ''777'', pd_status = ''approved'', pd_external_reference = ''o1'',
       pd_details = ''accredited''\<rparr>"
  let ?d = "(shop Normal 5 [3])\<lparr>payments := payments (shop Normal 5 [3]) @
          [\<lparr>pay_id = ''pay0'', pay_order_id = ''o2'', pay_method = ''efectivo'',
            pay_amount = 100, pay_currency = ''ARS'', pay_status = ''pending'',
            pay_external_id = None, pay_gateway_response = None,
            pay_created_at = 2, pay_updated_at = 2\<rparr>]\<rparr>"
  have a: "processWebhook (gateway_says ''approved'') payment_777 = Inr (Some ?pd)"
    by (simp add: processWebhook_def gateway_says_def payment_777_def await_def)
  have b: "fst (handleWebhook shop_id (gateway_says ''approved'') no_faults 20 payment_777 ?d)
             = (200, Text ''OK'')"
    by (simp add: shop_run)
  show ?thesis
    unfolding webhook_payment_rows[OF a b] by (simp add: shop_def Let_def)
qed

text \<open>
  C2, as the specification states it, fails: nothing in the handler records that the
  payment was already applied. With stock 5 and quantity 3, one delivery of the
  approved payment leaves stock 2, two deliveries leave stock 0.
\<close>

theorem webhook_redelivery_counterexample:
  "map_option p_stock (products (snd (handleWebhook shop_id (gateway_says ''approved'') no_faults 20
       payment_777 (shop Normal 5 [3]))) ''p1'') = Some 2
   \<and> map_option p_stock (products (snd (handleWebhook shop_id (gateway_says ''approved'') no_faults 20
       payment_777
       (snd (handleWebhook shop_id (gateway_says ''approved'') no_faults 20 payment_777
          (shop Normal 5 [3]))))) ''p1'') = Some 0"
  by (simp add: shop_run)

lemma set_payment_again:
  "set_payment now' pd (set_payment now pd p)
     = (if pay_external_id (set_payment now pd p) = Some (pd_payment_id pd)
           \<or> pay_order_id (set_payment now pd p) = pd_external_reference pd
        then (set_payment now pd p)\<lparr>pay_updated_at := now'\<rparr>
        else set_payment now pd p)"
  by (simp add: set_payment_def payment_matches_def)

lemma update_order_again:
  assumes "orders d1 = orders (update_order now st pd d)"
  shows "orders (update_order now' st pd d1)
           = (case orders d1 (pd_external_reference pd) of
                None \<Rightarrow> orders d1
              | Some ord \<Rightarrow> (orders d1)(pd_external_reference pd \<mapsto> ord\<lparr>o_updated_at := now'\<rparr>))"
  using assms by (auto simp: update_order_def split: option.splits)

text \<open>
  C2, amended. After an acknowledged delivery of a webhook, a second delivery of the
  same notification leaves users, line items and sessions as they were, and leaves
  every payment row and every order row as the first delivery left them but for
  \<open>updated_at\<close>: when the second delivery is acknowledged, the payment rows of the
  order (and those with the payment's id) and the order row carry the instant of the
  second delivery there, and nothing else in them changes; when it is not, nothing
  changes at all. The stock is not preserved: a second delivery of an approved payment
  that is acknowledged applies the stock reduction once more, to the stock that the
  first delivery left.
\<close>

theorem webhook_redelivery:
  assumes "processWebhook getPayment n = Inr (Some pd)"
    and "fst (handleWebhook is_uuid getPayment faults now n d) = (200, Text ''OK'')"
  shows "(let d1 = snd (handleWebhook is_uuid getPayment faults now n d);
              again = handleWebhook is_uuid getPayment faults' now' n d1;
              d2 = snd again
          in users d2 = users d1 \<and> order_items d2 = order_items d1
             \<and> user_sessions d2 = user_sessions d1
             \<and> (if fst again = (200, Text ''OK'') then
                   payments d2
                     = map (\<lambda>p. if pay_external_id p = Some (pd_payment_id pd)
                                    \<or> pay_order_id p = pd_external_reference pd
                                 then p\<lparr>pay_updated_at := now'\<rparr> else p) (payments d1)
                   \<and> orders d2
                     = (case orders d1 (pd_external_reference pd) of
                          None \<Rightarrow> orders d1
                        | Some ord \<Rightarrow>
                            (orders d1)(pd_external_reference pd \<mapsto> ord\<lparr>o_updated_at := now'\<rparr>))
                   \<and> products d2
                     = (if pd_status pd = ''approved''
                        then products (fold reduce_stock_of
                                         (select_order_items (pd_external_reference pd) d1) d1)
                        else products d1)
                 else again = ((500, Text ''Error''), d1)))"
proof -
  define d1 where "d1 = snd (handleWebhook is_uuid getPayment faults now n d)"
  define again where "again = handleWebhook is_uuid getPayment faults' now' n d1"
  have one: "d1 = committed_state now pd d"
    unfolding d1_def using assms by (rule handleWebhook_acknowledged)
  have p1: "payments d1 = map (set_payment now pd) (payments d)"
    and o1: "orders d1 = orders (update_order now (derived_status (pd_status pd)) pd d)"
    by (simp_all add: one committed_payments committed_orders)
  have pc: "payments (committed_state now' pd d1)
              = map (\<lambda>p. if pay_external_id p = Some (pd_payment_id pd)
                             \<or> pay_order_id p = pd_external_reference pd
                          then p\<lparr>pay_updated_at := now'\<rparr> else p) (payments d1)"
    by (simp add: committed_payments p1 set_payment_again)
  have oc: "orders (committed_state now' pd d1)
              = (case orders d1 (pd_external_reference pd) of
                   None \<Rightarrow> orders d1
                 | Some ord \<Rightarrow> (orders d1)(pd_external_reference pd \<mapsto> ord\<lparr>o_updated_at := now'\<rparr>))"
    using update_order_again[OF o1] by (simp add: committed_orders)
  show ?thesis
  proof (cases "fst again = (200, Text ''OK'')")
    case False
    then have "again = ((500, Text ''Error''), d1)"
      unfolding again_def using assms(1) by (rule handleWebhook_unacknowledged[rotated])
    with False show ?thesis
      unfolding Let_def d1_def[symmetric] again_def[symmetric] by simp
  next
    case True
    then have "snd again = committed_state now' pd d1"
      unfolding again_def using assms(1) by (rule handleWebhook_acknowledged[rotated])
    with True show ?thesis
      unfolding Let_def d1_def[symmetric] again_def[symmetric]
      by (simp add: pc oc committed_frame committed_products isPaymentApproved_def)
  qed
qed

theorem webhook_redelivery_witness:
  "(let d1 = snd (handleWebhook shop_id (gateway_says ''approved'') no_faults 20 payment_777
                    (shop Normal 5 [3]));
        d2 = snd (handleWebhook shop_id (gateway_says ''approved'') no_faults 30 payment_777 d1)
    in map pay_status (payments d2) = map pay_status (payments d1)
       \<and> map pay_updated_at (payments d1) = [20, 20]
       \<and> map pay_updated_at (payments d2) = [30, 30]
       \<and> map_option o_status (orders d2 ''o1'') = Some Pagado
       \<and> users d2 = users d1 \<and> order_items d2 = order_items d1
       \<and> user_sessions d2 = user_sessions d1
       \<and> map_option p_stock (products d2 ''p1'') = Some 0)"
proof -
  let ?pd = "\<lparr>pd_payment_id = ''777'', pd_status = ''approved'', pd_external_reference = ''o1'',
       pd_details = ''accredited''\<rparr>"
  define d1 where "d1 = snd (handleWebhook shop_id (gateway_says ''approved'') no_faults 20 payment_777
                    (shop Normal 5 [3]))"
  have a: "processWebhook (gateway_says ''approved'') payment_777 = Inr (Some ?pd)"
    by (simp add: processWebhook_def gateway_says_def payment_777_def await_def)
  have b: "fst (handleWebhook shop_id (gateway_says ''approved'') no_faults 20 payment_777
                  (shop Normal 5 [3])) = (200, Text ''OK'')"
    by (simp add: shop_run)
  have p1: "payments d1 =
      [\<lparr>pay_id = ''pay1'', pay_order_id = ''o1'', pay_method = ''mercadopago'',
        pay_amount = 4200, pay_currency = ''ARS'', pay_status = ''approved'',
        pay_external_id = Some ''pref-1'', pay_gateway_response = Some (Gateway_payload ?pd),
        pay_created_at = 5, pay_updated_at = 20\<rparr>,
       \<lparr>pay_id = ''pay2'', pay_order_id = ''o1'', pay_method = ''transferencia'',
        pay_amount = 4200, pay_currency = ''ARS'', pay_status = ''approved'',
        pay_external_id = None, pay_gateway_response = Some (Gateway_payload ?pd),
        pay_created_at = 9, pay_updated_at = 20\<rparr>]"
    and o1: "orders d1 ''o1'' = Some \<lparr>o_user_id = ''ana'', o_status = Pagado, o_total = 4200,
               o_shipping_address = ''Calle 1'', o_payment_id = Some ''777'', o_updated_at = 20\<rparr>"
    unfolding d1_def by (simp_all add: shop_run)
  have c: "fst (handleWebhook shop_id (gateway_says ''approved'') no_faults 30 payment_777 d1)
             = (200, Text ''OK'')"
    and s: "map_option p_stock
              (products (snd (handleWebhook shop_id (gateway_says ''approved'') no_faults 30
                 payment_777 d1)) ''p1'') = Some 0"
    unfolding d1_def by (simp_all add: shop_run)
  from webhook_redelivery[OF a b, of no_faults 30] c s show ?thesis
    unfolding Let_def d1_def[symmetric]
    by (simp add: p1 o1)
qed

section \<open>The stock of the products of a paid order\<close>

lemma map_filter_append: "List.map_filter f (xs @ ys) = List.map_filter f xs @ List.map_filter f ys"
  by (simp add: List.map_filter_def)

lemma select_order_items_filter:
  "select_order_items oid d =
     List.map_filter (joined_item oid d) (filter (\<lambda>oi. oi_order_id oi = oid) (order_items d))"
  unfolding select_order_items_def
  by (induction "order_items d" arbitrary: d) (auto simp: List.map_filter_simps joined_item_def List.map_filter_def)

lemma reduce_stock_of_other:
  "ir_product_id item \<noteq> x \<Longrightarrow> products (reduce_stock_of item d) x = products d x"
  by (simp add: reduce_stock_of_def update_product_def Let_def split: option.splits)

lemma fold_reduce_stock_other:
  "x \<notin> ir_product_id ` set rows \<Longrightarrow> products (fold reduce_stock_of rows d) x = products d x"
  by (induction rows arbitrary: d) (auto simp: reduce_stock_of_other)

lemma reduce_stock_of_shape:
  "products d x = Some (p\<lparr>p_status := st, p_stock := sk\<rparr>) \<Longrightarrow>
     \<exists>st' sk'. products (reduce_stock_of item d) x = Some (p\<lparr>p_status := st', p_stock := sk'\<rparr>)"
  by (cases "ir_product_id item = x")
     (auto simp: reduce_stock_of_def update_product_def Let_def split: option.splits)

lemma fold_reduce_stock_shape:
  "products d x = Some (p\<lparr>p_status := st, p_stock := sk\<rparr>) \<Longrightarrow>
     \<exists>st' sk'. products (fold reduce_stock_of rows d) x = Some (p\<lparr>p_status := st', p_stock := sk'\<rparr>)"
proof (induction rows arbitrary: d st sk)
  case Nil
  then show ?case by auto
next
  case (Cons item rows)
  from reduce_stock_of_shape[OF Cons.prems, of item] obtain st1 sk1 where
    "products (reduce_stock_of item d) x = Some (p\<lparr>p_status := st1, p_stock := sk1\<rparr>)" by blast
  from Cons.IH[OF this] show ?case by simp
qed

lemma joined_ids:
  "ir_product_id ` set (List.map_filter (joined_item oid d) ois) \<subseteq> oi_product_id ` set ois"
  by (auto simp: List.map_filter_def joined_item_def split: if_splits option.splits)

lemma approved_line_item_stock:
  assumes "processWebhook getPayment n = Inr (Some pd)"
    and "fst (handleWebhook is_uuid getPayment faults now n d) = (200, Text ''OK'')"
    and "pd_status pd = ''approved''"
    and "filter (\<lambda>oi. oi_order_id oi = pd_external_reference pd) (order_items d) = before @ oi # after"
    and "\<forall>oj \<in> set after. oi_product_id oj \<noteq> oi_product_id oi"
    and "products d (oi_product_id oi) = Some p"
  shows "products (snd (handleWebhook is_uuid getPayment faults now n d)) (oi_product_id oi) =
           Some (if p_product_type p = Unico then p\<lparr>p_status := Agotado, p_stock := 0\<rparr>
                 else p\<lparr>p_status := (if max 0 (p_stock p - oi_quantity oi) = 0
                                      then Agotado else Disponible),
                        p_stock := max 0 (p_stock p - oi_quantity oi)\<rparr>)"
proof -
  let ?ref = "pd_external_reference pd" and ?x = "oi_product_id oi"
  let ?J = "joined_item ?ref d"
  let ?row = "\<lparr>ir_product_id = ?x, ir_quantity = oi_quantity oi,
                ir_stock = p_stock p, ir_product_type = p_product_type p\<rparr>"
  have "oi \<in> set (filter (\<lambda>oi. oi_order_id oi = ?ref) (order_items d))"
    by (simp add: assms(4))
  then have "oi_order_id oi = ?ref" by simp
  then have J: "?J oi = Some ?row"
    by (simp add: joined_item_def assms(6))
  have rows: "select_order_items ?ref d = List.map_filter ?J before @ ?row # List.map_filter ?J after"
    by (simp add: select_order_items_filter assms(4) map_filter_append List.map_filter_simps J)
  define db where "db = fold reduce_stock_of (List.map_filter ?J before) d"
  have "p = p\<lparr>p_status := p_status p, p_stock := p_stock p\<rparr>" by simp
  with assms(6) have "products d ?x = Some (p\<lparr>p_status := p_status p, p_stock := p_stock p\<rparr>)"
    by simp
  from fold_reduce_stock_shape[OF this] obtain st sk where
    b: "products db ?x = Some (p\<lparr>p_status := st, p_stock := sk\<rparr>)"
    unfolding db_def by blast
  have mid: "products (reduce_stock_of ?row db) ?x =
           Some (if p_product_type p = Unico then p\<lparr>p_status := Agotado, p_stock := 0\<rparr>
                 else p\<lparr>p_status := (if max 0 (p_stock p - oi_quantity oi) = 0
                                      then Agotado else Disponible),
                        p_stock := max 0 (p_stock p - oi_quantity oi)\<rparr>)"
    using b by (simp add: reduce_stock_of_def update_product_def Let_def)
  have "?x \<notin> ir_product_id ` set (List.map_filter ?J after)"
    using joined_ids[of ?ref d after] assms(5) by auto
  from fold_reduce_stock_other[OF this]
  have "products (fold reduce_stock_of (select_order_items ?ref d) d) ?x
          = products (reduce_stock_of ?row db) ?x"
    by (simp add: rows db_def)
  moreover have "snd (handleWebhook is_uuid getPayment faults now n d) = committed_state now pd d"
    using assms(1,2) by (rule handleWebhook_acknowledged)
  ultimately show ?thesis
    using mid by (simp add: committed_products isPaymentApproved_def assms(3))
qed

text \<open>The three runs of the specification: stock 5 and quantity 3, 5 and 7.\<close>

lemma approved_stock_examples:
  "map_option (\<lambda>p. (p_stock p, p_status p))
     (products (snd (handleWebhook shop_id (gateway_says ''approved'') no_faults 20 payment_777
        (shop Normal 5 [3]))) ''p1'') = Some (2, Disponible)"
  "map_option (\<lambda>p. (p_stock p, p_status p))
     (products (snd (handleWebhook shop_id (gateway_says ''approved'') no_faults 20 payment_777
        (shop Normal 5 [5]))) ''p1'') = Some (0, Agotado)"
  "map_option (\<lambda>p. (p_stock p, p_status p))
     (products (snd (handleWebhook shop_id (gateway_says ''approved'') no_faults 20 payment_777
        (shop Normal 5 [7]))) ''p1'') = Some (0, Agotado)"
  "map_option (\<lambda>p. (p_stock p, p_status p))
     (products (snd (handleWebhook shop_id (gateway_says ''approved'') no_faults 20 payment_777
        (shop Unico 5 [3]))) ''p1'') = Some (0, Agotado)"
  by (simp_all add: shop_run)

text \<open>
  C1. The loop means to reduce the stock by the quantity of every line item, and does
  so for a line item whose product no later line item of the order names
  (\<open>approved_line_item_stock\<close>). It misses the order in which two line items name
  the same product: every selected row carries the stock read before the loop, so the
  update of the later line overwrites that of the earlier one. With stock 10 and two
  lines of quantity 2 and 3 on the same product, the stock ends at 7 = 10 - 3 (at
  8 = 10 - 2 had the database returned the rows in the other order), where reducing
  it by the quantity of every line item gives 10 - 2 - 3 = 5.
\<close>

theorem webhook_duplicate_product_stock:
  "products (snd (handleWebhook shop_id (gateway_says ''approved'') no_faults 20 payment_777
       (shop Normal 10 [2, 3]))) ''p1''
     = Some \<lparr>p_name = ''PlayStation 5'', p_status = Disponible, p_product_type = Normal, p_stock = 7\<rparr>"
  by (simp add: shop_run)

section \<open>Claims about the other payment handlers\<close>

text \<open>
  C6, as the specification states it, fails for an order id that is not a UUID: no such
  order exists, but the lookup itself fails and the handler answers 500, not 404.
\<close>

theorem createPaymentPreference_guards_counterexample:
  "orders (shop Normal 5 [3]) ''no-es-uuid'' = None
   \<and> createPaymentPreference shop_id preference_gateway ''pay3'' 20 ''no-es-uuid'' ''ana''
        (shop Normal 5 [3])
      = ((500, Failure Error_procesando_solicitud_de_pago), shop Normal 5 [3], [])"
  by (simp add: createPaymentPreference_def shop_id_def shop_def server_error_def)

text \<open>
  C6, amended. For an order id that reads as a UUID, \<open>createPaymentPreference\<close>
  answers 404 (NotFoundError) when the order does not exist or belongs to another user,
  and 400 (StateError) when the caller's order is not pending; for an order id that
  does not read as a UUID it answers 500; in all three cases without touching the
  database or the gateway. For the caller's pending order it sends one preference
  request and, when the gateway answers, appends one payment row with status pending
  and the preference id as external id. A gateway request or a new payment row occurs
  only for the caller's pending order, and an answer other than 200 leaves the
  database as it was.
\<close>

theorem createPaymentPreference_guards:
  "(is_uuid order_id
      \<and> (orders d order_id = None \<or> (\<exists>ord. orders d order_id = Some ord \<and> o_user_id ord \<noteq> userId))
      \<longrightarrow> createPaymentPreference is_uuid gateway uuid now order_id userId d
            = (not_found Orden_no_encontrada, d, []))
   \<and> (\<not> is_uuid order_id
      \<longrightarrow> createPaymentPreference is_uuid gateway uuid now order_id userId d
            = (server_error Error_procesando_solicitud_de_pago, d, []))
   \<and> (\<forall>ord. is_uuid order_id \<and> orders d order_id = Some ord \<and> o_user_id ord = userId
         \<and> o_status ord \<noteq> Pendiente
      \<longrightarrow> createPaymentPreference is_uuid gateway uuid now order_id userId d
            = (bad_request Orden_no_valida_para_pago, d, []))
   \<and> (\<forall>ord c pref.
         is_uuid order_id \<and> orders d order_id = Some ord \<and> o_user_id ord = userId
         \<and> o_status ord = Pendiente \<and> select_contact userId d = Some c
         \<and> gateway \<lparr>od_order_id = order_id, od_items = order_items_view order_id d,
                     od_user = Some c, od_shipping_address = o_shipping_address ord\<rparr> = Inr pref
      \<longrightarrow> createPaymentPreference is_uuid gateway uuid now order_id userId d
            = ((200, Preference_data pref),
               d\<lparr>payments := payments d @
                   [\<lparr>pay_id = uuid, pay_order_id = order_id, pay_method = ''mercadopago'',
                     pay_amount = o_total ord, pay_currency = ''ARS'', pay_status = ''pending'',
                     pay_external_id = Some (preference_id pref),
                     pay_gateway_response = None, pay_created_at = now,
                     pay_updated_at = now\<rparr>]\<rparr>,
               [\<lparr>od_order_id = order_id, od_items = order_items_view order_id d,
                 od_user = Some c, od_shipping_address = o_shipping_address ord\<rparr>]))
   \<and> ((snd (snd (createPaymentPreference is_uuid gateway uuid now order_id userId d)) \<noteq> []
        \<or> payments (fst (snd (createPaymentPreference is_uuid gateway uuid now order_id userId d)))
             \<noteq> payments d)
      \<longrightarrow> is_uuid order_id
          \<and> (\<exists>ord. orders d order_id = Some ord \<and> o_user_id ord = userId \<and> o_status ord = Pendiente))
   \<and> (fst (fst (createPaymentPreference is_uuid gateway uuid now order_id userId d)) \<noteq> 200
      \<longrightarrow> fst (snd (createPaymentPreference is_uuid gateway uuid now order_id userId d)) = d)"
  by (auto simp: createPaymentPreference_def select_user_order_def createPreference_def Let_def
      not_found_def bad_request_def server_error_def
      split: option.splits sum.splits prod.splits)

theorem createPaymentPreference_guards_witness:
  "createPaymentPreference shop_id preference_gateway ''pay3'' 20 ''o1'' ''leo'' (shop Normal 5 [3])
     = (not_found Orden_no_encontrada, shop Normal 5 [3], [])
   \<and> createPaymentPreference shop_id preference_gateway ''pay3'' 20 ''o2'' ''ana'' (shop Normal 5 [3])
     = (not_found Orden_no_encontrada, shop Normal 5 [3], [])
   \<and> createPaymentPreference shop_id preference_gateway ''pay3'' 20 ''o1'' ''ana'' (shop Normal 5 [3])
     = ((200, Preference_data \<lparr>preference_id = ''pref-2'', init_point = ''https://pay/pref-2'',
                               sandbox_init_point = ''https://sandbox/pref-2''\<rparr>),
        (shop Normal 5 [3])\<lparr>payments := payments (shop Normal 5 [3]) @
           [\<lparr>pay_id = ''pay3'', pay_order_id = ''o1'', pay_method = ''mercadopago'',
             pay_amount = 4200, pay_currency = ''ARS'', pay_status = ''pending'',
             pay_external_id = Some ''pref-2'',
             pay_gateway_response = None, pay_created_at = 20, pay_updated_at = 20\<rparr>]\<rparr>,
        [\<lparr>od_order_id = ''o1'',
          od_items = [\<lparr>iv_product_id = Some ''p1'', iv_name = Some ''PlayStation 5'',
                       iv_quantity = Some 3, iv_unit_price = Some 1400\<rparr>],
          od_user = Some \<lparr>c_name = ''Ana'', c_email = ''ana@example.com'', c_phone = None\<rparr>,
          od_shipping_address = ''Calle 1''\<rparr>])"
proof -
  have o: "orders (shop Normal 5 [3]) ''o1'' = Some \<lparr>o_user_id = ''ana'', o_status = Pendiente,
             o_total = 4200, o_shipping_address = ''Calle 1'', o_payment_id = None,
             o_updated_at = 4\<rparr>"
    and o2: "orders (shop Normal 5 [3]) ''o2'' = None"
    by (simp_all add: shop_def)
  have c: "select_contact ''ana'' (shop Normal 5 [3])
             = Some \<lparr>c_name = ''Ana'', c_email = ''ana@example.com'', c_phone = None\<rparr>"
    by (simp add: select_contact_def shop_def)
  have i: "order_items_view ''o1'' (shop Normal 5 [3])
             = [\<lparr>iv_product_id = Some ''p1'', iv_name = Some ''PlayStation 5'',
                 iv_quantity = Some 3, iv_unit_price = Some 1400\<rparr>]"
    by (simp add: order_items_view_def shop_def)
  have u: "shop_id ''o1''" "shop_id ''o2''"
    by (simp_all add: shop_id_def)
  show ?thesis
    using createPaymentPreference_guards[of shop_id "''o1''" "shop Normal 5 [3]" "''leo''"
        preference_gateway "''pay3''" 20]
      createPaymentPreference_guards[of shop_id "''o2''" "shop Normal 5 [3]" "''ana''"
        preference_gateway "''pay3''" 20]
      createPaymentPreference_guards[of shop_id "''o1''" "shop Normal 5 [3]" "''ana''"
        preference_gateway "''pay3''" 20]
    by (simp add: o o2 c i u preference_gateway_def)
qed

lemma most_recent_None: "most_recent rs = None \<longleftrightarrow> rs = []"
  by (induction rs) (auto split: option.splits)

lemma most_recent_Some:
  "most_recent rs = Some r \<Longrightarrow>
     r \<in> set rs \<and> (\<forall>r' \<in> set rs. pay_created_at (fst r') \<le> pay_created_at (fst r))"
proof (induction rs arbitrary: r)
  case Nil
  then show ?case by simp
next
  case (Cons a rs)
  show ?case
  proof (cases "most_recent rs")
    case None
    with Cons.prems show ?thesis by (simp add: most_recent_None)
  next
    case (Some b)
    from Cons.IH[OF Some] Cons.prems Some show ?thesis
      by (auto split: if_splits)
  qed
qed

lemma joined_payments_owned:
  "orders d oid = Some ord \<Longrightarrow> o_user_id ord = userId \<Longrightarrow>
     List.map_filter (joined_payment oid userId d) ps
       = map (\<lambda>p. (p, o_status ord)) (filter (\<lambda>p. pay_order_id p = oid) ps)"
  by (induction ps) (auto simp: List.map_filter_simps joined_payment_def)

lemma joined_payments_foreign:
  "orders d oid = None \<or> (\<exists>ord. orders d oid = Some ord \<and> o_user_id ord \<noteq> userId) \<Longrightarrow>
     List.map_filter (joined_payment oid userId d) ps = []"
  by (induction ps) (auto simp: List.map_filter_simps joined_payment_def)

text \<open>
  C9. \<open>checkPaymentStatus\<close> never changes the database. For an order that belongs to
  another user, or that has no payment (or that does not exist), it answers 404
  (NotFoundError); for the caller's own order with payments it answers with the
  projection of a payment of that order that no other payment of the order is more
  recent than. The order id of these cases reads as a UUID, as the id of every stored
  order does; for a text that does not, the query fails and the answer is 500.
\<close>

theorem checkPaymentStatus_owner_only:
  "snd (checkPaymentStatus is_uuid oid userId d) = d
   \<and> (is_uuid oid
        \<and> (orders d oid = None \<or> (\<exists>ord. orders d oid = Some ord \<and> o_user_id ord \<noteq> userId)
           \<or> \<not> list_ex (\<lambda>p. pay_order_id p = oid) (payments d))
       \<longrightarrow> fst (checkPaymentStatus is_uuid oid userId d) = not_found Pago_no_encontrado)
   \<and> (\<not> is_uuid oid
       \<longrightarrow> fst (checkPaymentStatus is_uuid oid userId d) = server_error Error_verificando_el_pago)
   \<and> (\<forall>ord. is_uuid oid \<and> orders d oid = Some ord \<and> o_user_id ord = userId
          \<and> list_ex (\<lambda>p. pay_order_id p = oid) (payments d)
       \<longrightarrow> (\<exists>p \<in> set (payments d). pay_order_id p = oid
              \<and> (\<forall>q \<in> set (payments d). pay_order_id q = oid
                     \<longrightarrow> pay_created_at q \<le> pay_created_at p)
              \<and> fst (checkPaymentStatus is_uuid oid userId d)
                  = (200, Payment_status
                            \<lparr>pv_payment_id = pay_id p, pv_status = pay_status p,
                             pv_amount = pay_amount p, pv_currency = pay_currency p,
                             pv_order_status = o_status ord,
                             pv_created_at = pay_created_at p,
                             pv_updated_at = pay_updated_at p\<rparr>)))"
proof (intro conjI allI impI)
  show "snd (checkPaymentStatus is_uuid oid userId d) = d"
    by (simp add: checkPaymentStatus_def split: option.splits prod.splits)
next
  assume "\<not> is_uuid oid"
  then show "fst (checkPaymentStatus is_uuid oid userId d) = server_error Error_verificando_el_pago"
    by (simp add: checkPaymentStatus_def)
next
  assume a: "is_uuid oid
        \<and> (orders d oid = None \<or> (\<exists>ord. orders d oid = Some ord \<and> o_user_id ord \<noteq> userId)
           \<or> \<not> list_ex (\<lambda>p. pay_order_id p = oid) (payments d))"
  have "List.map_filter (joined_payment oid userId d) (payments d) = []"
  proof (cases "orders d oid = None \<or> (\<exists>ord. orders d oid = Some ord \<and> o_user_id ord \<noteq> userId)")
    case True
    then show ?thesis by (rule joined_payments_foreign)
  next
    case False
    then obtain ord where o: "orders d oid = Some ord" "o_user_id ord = userId" by auto
    from False a have "\<not> list_ex (\<lambda>p. pay_order_id p = oid) (payments d)" by blast
    then have "filter (\<lambda>p. pay_order_id p = oid) (payments d) = []"
      by (simp add: list_ex_iff filter_empty_conv)
    then show ?thesis by (simp add: joined_payments_owned[OF o])
  qed
  with a show "fst (checkPaymentStatus is_uuid oid userId d) = not_found Pago_no_encontrado"
    by (simp add: checkPaymentStatus_def)
next
  fix ord
  assume a: "is_uuid oid \<and> orders d oid = Some ord \<and> o_user_id ord = userId
          \<and> list_ex (\<lambda>p. pay_order_id p = oid) (payments d)"
  let ?rows = "map (\<lambda>p. (p, o_status ord)) (filter (\<lambda>p. pay_order_id p = oid) (payments d))"
  from a have rows: "List.map_filter (joined_payment oid userId d) (payments d) = ?rows"
    by (simp add: joined_payments_owned)
  from a have "?rows \<noteq> []" by (auto simp: list_ex_iff filter_empty_conv)
  then obtain r where r: "most_recent ?rows = Some r"
    using most_recent_None[of ?rows] by (cases "most_recent ?rows") auto
  from most_recent_Some[OF r] have
    m: "r \<in> set ?rows" and mx: "\<forall>r' \<in> set ?rows. pay_created_at (fst r') \<le> pay_created_at (fst r)"
    by auto
  from m have p: "fst r \<in> set (payments d)" "pay_order_id (fst r) = oid" "snd r = o_status ord"
    by auto
  have "\<forall>q \<in> set (payments d). pay_order_id q = oid \<longrightarrow> pay_created_at q \<le> pay_created_at (fst r)"
    using mx by auto
  moreover have "fst (checkPaymentStatus is_uuid oid userId d)
                  = (200, Payment_status
                            \<lparr>pv_payment_id = pay_id (fst r), pv_status = pay_status (fst r),
                             pv_amount = pay_amount (fst r), pv_currency = pay_currency (fst r),
                             pv_order_status = o_status ord,
                             pv_created_at = pay_created_at (fst r),
                             pv_updated_at = pay_updated_at (fst r)\<rparr>)"
    using r p(3) a by (auto simp: checkPaymentStatus_def rows split: prod.splits)
  ultimately show "\<exists>p \<in> set (payments d). pay_order_id p = oid
              \<and> (\<forall>q \<in> set (payments d). pay_order_id q = oid
                     \<longrightarrow> pay_created_at q \<le> pay_created_at p)
              \<and> fst (checkPaymentStatus is_uuid oid userId d)
                  = (200, Payment_status
                            \<lparr>pv_payment_id = pay_id p, pv_status = pay_status p,
                             pv_amount = pay_amount p, pv_currency = pay_currency p,
                             pv_order_status = o_status ord,
                             pv_created_at = pay_created_at p,
                             pv_updated_at = pay_updated_at p\<rparr>)"
    using p(1,2) by blast
qed

theorem checkPaymentStatus_owner_only_witness:
  "checkPaymentStatus shop_id ''o1'' ''leo'' (shop Normal 5 [3])
     = (not_found Pago_no_encontrado, shop Normal 5 [3])
   \<and> checkPaymentStatus shop_id ''no-es-uuid'' ''ana'' (shop Normal 5 [3])
     = (server_error Error_verificando_el_pago, shop Normal 5 [3])
   \<and> checkPaymentStatus shop_id ''o1'' ''ana'' (shop Normal 5 [3])
     = ((200, Payment_status
                \<lparr>pv_payment_id = ''pay2'', pv_status = ''pending'', pv_amount = 4200,
                 pv_currency = ''ARS'', pv_order_status = Pendiente, pv_created_at = 9,
                 pv_updated_at = 9\<rparr>),
        shop Normal 5 [3])"
proof -
  have o: "orders (shop Normal 5 [3]) ''o1'' = Some \<lparr>o_user_id = ''ana'', o_status = Pendiente,
             o_total = 4200, o_shipping_address = ''Calle 1'', o_payment_id = None,
             o_updated_at = 4\<rparr>"
    by (simp add: shop_def)
  have u: "shop_id ''o1''" "\<not> shop_id ''no-es-uuid''"
    by (simp_all add: shop_id_def)
  have ana: "fst (checkPaymentStatus shop_id ''o1'' ''ana'' (shop Normal 5 [3]))
     = (200, Payment_status
                \<lparr>pv_payment_id = ''pay2'', pv_status = ''pending'', pv_amount = 4200,
                 pv_currency = ''ARS'', pv_order_status = Pendiente, pv_created_at = 9,
                 pv_updated_at = 9\<rparr>)"
    by (simp add: checkPaymentStatus_def shop_def shop_id_def joined_payment_def List.map_filter_simps)
  from checkPaymentStatus_owner_only[of shop_id "''o1''" "''leo''" "shop Normal 5 [3]"] o u
  have leo: "checkPaymentStatus shop_id ''o1'' ''leo'' (shop Normal 5 [3])
     = (not_found Pago_no_encontrado, shop Normal 5 [3])"
    by (simp add: prod_eq_iff)
  from checkPaymentStatus_owner_only[of shop_id "''no-es-uuid''" "''ana''" "shop Normal 5 [3]"] u
  have bad: "checkPaymentStatus shop_id ''no-es-uuid'' ''ana'' (shop Normal 5 [3])
     = (server_error Error_verificando_el_pago, shop Normal 5 [3])"
    by (simp add: prod_eq_iff)
  from checkPaymentStatus_owner_only[of shop_id "''o1''" "''ana''" "shop Normal 5 [3]"]
  have "snd (checkPaymentStatus shop_id ''o1'' ''ana'' (shop Normal 5 [3])) = shop Normal 5 [3]"
    by simp
  with ana leo bad show ?thesis by (simp add: prod_eq_iff)
qed

text \<open>
  C10. When \<open>processManualPayment\<close> accepts a submission, the order is the caller's
  and pending, and the one payment row it appends has the order's stored total as
  amount and the status pending; requests that agree on order, payment method and
  proof get the same answer and the same database, whatever else their bodies carry (an amount,
  a status).
\<close>

theorem processManualPayment_amount:
  assumes "fst (fst (processManualPayment is_uuid uuid now req userId d)) = 200"
  shows "\<exists>ord paid_with. orders d (m_order_id req) = Some ord \<and> o_user_id ord = userId
           \<and> o_status ord = Pendiente \<and> m_payment_method req = Some paid_with
           \<and> payments (snd (processManualPayment is_uuid uuid now req userId d))
               = payments d @
                 [\<lparr>pay_id = uuid, pay_order_id = m_order_id req, pay_method = paid_with,
                   pay_amount = o_total ord, pay_currency = ''ARS'', pay_status = ''pending'',
                   pay_external_id = None,
                   pay_gateway_response = Some (Manual_proof (m_payment_proof req) now),
                   pay_created_at = now, pay_updated_at = now\<rparr>]
           \<and> (\<forall>req'. m_order_id req' = m_order_id req
                  \<and> m_payment_method req' = m_payment_method req
                  \<and> m_payment_proof req' = m_payment_proof req
                \<longrightarrow> processManualPayment is_uuid uuid now req' userId d
                      = processManualPayment is_uuid uuid now req userId d)"
proof -
  have u: "is_uuid (m_order_id req)"
    using assms by (cases "is_uuid (m_order_id req)")
      (simp_all add: processManualPayment_def server_error_def)
  from assms obtain ord where
    sel: "select_pending_order (m_order_id req) userId d = Some ord"
    by (cases "select_pending_order (m_order_id req) userId d")
       (simp_all add: processManualPayment_def not_found_def u)
  from assms sel obtain paid_with where meth: "m_payment_method req = Some paid_with"
    by (cases "m_payment_method req") (simp_all add: processManualPayment_def server_error_def u)
  from sel have o: "orders d (m_order_id req) = Some ord" "o_user_id ord = userId"
    "o_status ord = Pendiente"
    by (simp_all add: select_pending_order_def split: option.splits if_splits)
  have ins: "payments (snd (processManualPayment is_uuid uuid now req userId d))
               = payments d @
                 [\<lparr>pay_id = uuid, pay_order_id = m_order_id req, pay_method = paid_with,
                   pay_amount = o_total ord, pay_currency = ''ARS'', pay_status = ''pending'',
                   pay_external_id = None,
                   pay_gateway_response = Some (Manual_proof (m_payment_proof req) now),
                   pay_created_at = now, pay_updated_at = now\<rparr>]"
    by (simp add: processManualPayment_def sel meth u)
  have same: "processManualPayment is_uuid uuid now req' userId d
                = processManualPayment is_uuid uuid now req userId d"
    if "m_order_id req' = m_order_id req \<and> m_payment_method req' = m_payment_method req
          \<and> m_payment_proof req' = m_payment_proof req" for req'
    using that by (simp add: processManualPayment_def sel meth u)
  from o meth ins same show ?thesis by blast
qed

theorem processManualPayment_amount_witness:
  "payments (snd (processManualPayment shop_id ''pay3'' 30
       \<lparr>m_order_id = ''o1'', m_payment_method = Some ''efectivo'', m_payment_proof = None,
         m_other_fields = [(''amount'', ''1''), (''status'', ''approved'')]\<rparr> ''ana''
       (shop Normal 5 [3])))
     = payments (shop Normal 5 [3]) @
         [\<lparr>pay_id = ''pay3'', pay_order_id = ''o1'', pay_method = ''efectivo'',
           pay_amount = 4200, pay_currency = ''ARS'', pay_status = ''pending'',
           pay_external_id = None, pay_gateway_response = Some (Manual_proof None 30),
           pay_created_at = 30, pay_updated_at = 30\<rparr>]
   \<and> processManualPayment shop_id ''pay3'' 30
       \<lparr>m_order_id = ''o1'', m_payment_method = Some ''efectivo'', m_payment_proof = None,
         m_other_fields = []\<rparr> ''ana'' (shop Normal 5 [3])
     = processManualPayment shop_id ''pay3'' 30
       \<lparr>m_order_id = ''o1'', m_payment_method = Some ''efectivo'', m_payment_proof = None,
         m_other_fields = [(''amount'', ''1''), (''status'', ''approved'')]\<rparr> ''ana''
       (shop Normal 5 [3])"
proof -
  let ?req = "\<lparr>m_order_id = ''o1'', m_payment_method = Some ''efectivo'', m_payment_proof = None,
         m_other_fields = [(''amount'', ''1''), (''status'', ''approved'')]\<rparr>"
  have ok: "fst (fst (processManualPayment shop_id ''pay3'' 30 ?req ''ana'' (shop Normal 5 [3]))) = 200"
    by (simp add: processManualPayment_def select_pending_order_def shop_def shop_id_def)
  have o: "orders (shop Normal 5 [3]) ''o1'' = Some \<lparr>o_user_id = ''ana'', o_status = Pendiente,
             o_total = 4200, o_shipping_address = ''Calle 1'', o_payment_id = None,
             o_updated_at = 4\<rparr>"
    by (simp add: shop_def)
  from processManualPayment_amount[OF ok] obtain ord paid_with where
    f: "orders (shop Normal 5 [3]) (m_order_id ?req) = Some ord"
       "m_payment_method ?req = Some paid_with"
       "payments (snd (processManualPayment shop_id ''pay3'' 30 ?req ''ana'' (shop Normal 5 [3])))
               = payments (shop Normal 5 [3]) @
                 [\<lparr>pay_id = ''pay3'', pay_order_id = m_order_id ?req, pay_method = paid_with,
                   pay_amount = o_total ord, pay_currency = ''ARS'', pay_status = ''pending'',
                   pay_external_id = None,
                   pay_gateway_response = Some (Manual_proof (m_payment_proof ?req) 30),
                   pay_created_at = 30, pay_updated_at = 30\<rparr>]"
    and g: "\<And>req'. m_order_id req' = m_order_id ?req
                  \<and> m_payment_method req' = m_payment_method ?req
                  \<and> m_payment_proof req' = m_payment_proof ?req
                \<Longrightarrow> processManualPayment shop_id ''pay3'' 30 req' ''ana'' (shop Normal 5 [3])
                      = processManualPayment shop_id ''pay3'' 30 ?req ''ana'' (shop Normal 5 [3])"
    by blast
  from f(1) o have "o_total ord = 4200" by auto
  moreover from f(2) have "paid_with = ''efectivo''" by simp
  ultimately have "payments (snd (processManualPayment shop_id ''pay3'' 30 ?req ''ana'' (shop Normal 5 [3])))
     = payments (shop Normal 5 [3]) @
         [\<lparr>pay_id = ''pay3'', pay_order_id = ''o1'', pay_method = ''efectivo'',
           pay_amount = 4200, pay_currency = ''ARS'', pay_status = ''pending'',
           pay_external_id = None, pay_gateway_response = Some (Manual_proof None 30),
           pay_created_at = 30, pay_updated_at = 30\<rparr>]"
    using f(3) by simp
  moreover have "processManualPayment shop_id ''pay3'' 30
       \<lparr>m_order_id = ''o1'', m_payment_method = Some ''efectivo'', m_payment_proof = None,
         m_other_fields = []\<rparr> ''ana'' (shop Normal 5 [3])
     = processManualPayment shop_id ''pay3'' 30 ?req ''ana'' (shop Normal 5 [3])"
    by (rule g) simp
  ultimately show ?thesis by (rule conjI)
qed

section \<open>Claims about identity and sessions\<close>

lemma ascii_lower_examples:
  "ascii_lower ''Ana@Example.com'' = ''ana@example.com''"
  "ascii_lower ''ana@example.com'' = ''ana@example.com''"
  "ascii_lower ''ANA@EXAMPLE.COM'' = ''ana@example.com''"
  "ascii_lower ''Eva@Example.com'' = ''eva@example.com''"
  "ascii_lower ''EVA@example.COM'' = ''eva@example.com''"
  by code_simp+

lemma find_none: "find P xs = None \<longleftrightarrow> (\<forall>x \<in> set xs. \<not> P x)"
  by (induction xs) auto

lemmas shop_login = login_def library_def shop_def ascii_lower_examples Let_def new_session_def
    seven_days_def issued_at_def role_text_def view_of_def

text \<open>
  C7, as the specification states it, fails when two logins of a user fall into the
  same second: the token is determined by the payload and the second of issue, so the
  second login issues the very token of the first, and the token of the earlier login
  is accepted afterwards. Here ana logs in at 1 ms and again at 2 ms.
\<close>

theorem login_single_session_counterexample:
  "(let req = \<lparr>l_valid = True, l_email = ''ana@example.com'', l_password = ''Secreto1''\<rparr>;
        earlier = login ascii_lower (library 1 ''x'') req (shop Normal 5 [3]);
        later = login ascii_lower (library 2 ''y'') req (snd earlier);
        ana = \<lparr>uv_id = ''ana'', uv_name = ''Ana'', uv_email = ''ana@example.com'',
                uv_role = Customer\<rparr>
    in fst earlier = (200, Auth_data Inicio_de_sesion_exitoso ana ''ana:ana@example.com:customer.'')
       \<and> fst later = (200, Auth_data Inicio_de_sesion_exitoso ana ''ana:ana@example.com:customer.'')
       \<and> fst (authenticateToken shop_id (library 3 ''z'')
                 (Some ''ana:ana@example.com:customer.'') (snd later)) = Inr ana)"
  by (simp add: shop_login authenticateToken_def shop_id_def)

text \<open>
  C7, amended. After a successful login the user has exactly one session row, the one
  just inserted, which expires seven days later; the sessions of other users are as
  before. A token of an earlier login of the user (a token all of whose earlier
  sessions belong to this user) is rejected with 401 by \<open>authenticateToken\<close> from then
  on, whatever the clock and the verifier say, unless it is the very text that this
  login issued, as it is for an earlier login in the same second.
\<close>

theorem login_single_session:
  assumes "fst (fst (login toLowerCase env req d)) = 200"
  shows "\<exists>user. find (\<lambda>u. u_email u = toLowerCase (l_email req)) (users d) = Some user
     \<and> (let token = jwt_sign env (u_id user) (u_email user) (u_role user) (clock env div 1000);
             d' = snd (login toLowerCase env req d)
         in fst (login toLowerCase env req d)
              = (200, Auth_data Inicio_de_sesion_exitoso (view_of user) token)
            \<and> filter (\<lambda>s. s_user_id s = u_id user) (user_sessions d')
                = [\<lparr>s_user_id = u_id user, s_token = token, s_expires_at = clock env + seven_days\<rparr>]
            \<and> filter (\<lambda>s. s_user_id s \<noteq> u_id user) (user_sessions d')
                = filter (\<lambda>s. s_user_id s \<noteq> u_id user) (user_sessions d)
            \<and> (\<forall>old is_uuid env'. old \<noteq> token
                   \<and> (\<forall>s \<in> set (user_sessions d). s_token s = old \<longrightarrow> s_user_id s = u_id user)
                 \<longrightarrow> authenticateToken is_uuid env' (Some old) d'
                       = (Inl (unauthorized (if old = [] then Token_requerido else Token_invalido)),
                          d')))"
proof -
  from assms obtain user where
    f: "find (\<lambda>u. u_email u = toLowerCase (l_email req)) (users d) = Some user"
    and v: "l_valid req" and c: "bcrypt_compare env (l_password req) (u_password user)"
    by (auto simp: login_def bad_request_def unauthorized_def Let_def split: if_splits option.splits)
  let ?token = "jwt_sign env (u_id user) (u_email user) (u_role user) (clock env div 1000)"
  let ?new = "\<lparr>s_user_id = u_id user, s_token = ?token, s_expires_at = clock env + seven_days\<rparr>"
  have l: "login toLowerCase env req d
             = ((200, Auth_data Inicio_de_sesion_exitoso (view_of user) ?token),
                d\<lparr>user_sessions := filter (\<lambda>s. s_user_id s \<noteq> u_id user) (user_sessions d) @ [?new]\<rparr>)"
    using f v c by (simp add: login_def Let_def new_session_def issued_at_def)
  have own: "filter (\<lambda>s. s_user_id s = u_id user)
               (filter (\<lambda>s. s_user_id s \<noteq> u_id user) (user_sessions d) @ [?new]) = [?new]"
    by (induction "user_sessions d") (auto simp: filter_empty_conv)
  have others: "filter (\<lambda>s. s_user_id s \<noteq> u_id user)
               (filter (\<lambda>s. s_user_id s \<noteq> u_id user) (user_sessions d) @ [?new])
                = filter (\<lambda>s. s_user_id s \<noteq> u_id user) (user_sessions d)"
    by simp
  have old: "authenticateToken is_uuid env' (Some old) (snd (login toLowerCase env req d))
                  = (Inl (unauthorized (if old = [] then Token_requerido else Token_invalido)),
                     snd (login toLowerCase env req d))"
    if "old \<noteq> ?token" "\<forall>s \<in> set (user_sessions d). s_token s = old \<longrightarrow> s_user_id s = u_id user"
    for old is_uuid env'
  proof -
    have "find (\<lambda>s. s_token s = old)
            (filter (\<lambda>s. s_user_id s \<noteq> u_id user) (user_sessions d) @ [?new]) = None"
      using that by (auto simp: find_none)
    then show ?thesis
      by (simp add: l authenticateToken_def)
  qed
  show ?thesis
    apply (rule exI[of _ user])
    unfolding Let_def
    using f l own others old by auto
qed

theorem login_single_session_witness:
  "(let req = \<lparr>l_valid = True, l_email = ''Ana@Example.com'', l_password = ''Secreto1''\<rparr>;
        d1 = snd (login ascii_lower (library 500 ''x'') req (shop Normal 5 [3]));
        d2 = snd (login ascii_lower (library 1500 ''y'') req d1);
        ana = \<lparr>uv_id = ''ana'', uv_name = ''Ana'', uv_email = ''ana@example.com'',
                uv_role = Customer\<rparr>
    in user_sessions d1
         = [\<lparr>s_user_id = ''ana'', s_token = ''ana:ana@example.com:customer.'',
             s_expires_at = 604800500\<rparr>]
       \<and> fst (authenticateToken shop_id (library 1000 ''z'')
                 (Some ''ana:ana@example.com:customer.'') d1) = Inr ana
       \<and> filter (\<lambda>s. s_user_id s = ''ana'') (user_sessions d2)
            = [\<lparr>s_user_id = ''ana'', s_token = ''ana:ana@example.com:customer.i'',
                s_expires_at = 604801500\<rparr>]
       \<and> authenticateToken shop_id (library 2000 ''z'')
            (Some ''ana:ana@example.com:customer.'') d2
            = (Inl (unauthorized Token_invalido), d2))"
proof -
  let ?req = "\<lparr>l_valid = True, l_email = ''Ana@Example.com'', l_password = ''Secreto1''\<rparr>"
  let ?ana = "\<lparr>u_id = ''ana'', u_name = ''Ana'', u_email = ''ana@example.com'',
          u_password = ''#Secreto1'', u_role = Customer, u_phone = None, u_address = None\<rparr>"
  define d1 where "d1 = snd (login ascii_lower (library 500 ''x'') ?req (shop Normal 5 [3]))"
  define d2 where "d2 = snd (login ascii_lower (library 1500 ''y'') ?req d1)"
  have s1: "user_sessions d1
              = [\<lparr>s_user_id = ''ana'', s_token = ''ana:ana@example.com:customer.'',
                  s_expires_at = 604800500\<rparr>]"
    and u1: "users d1 = users (shop Normal 5 [3])"
    unfolding d1_def by (simp_all add: shop_login)
  have ok: "fst (fst (login ascii_lower (library 1500 ''y'') ?req d1)) = 200"
    by (simp add: login_def library_def u1 shop_def ascii_lower_examples Let_def)
  have a: "fst (authenticateToken shop_id (library 1000 ''z'')
                  (Some ''ana:ana@example.com:customer.'') d1)
            = Inr \<lparr>uv_id = ''ana'', uv_name = ''Ana'', uv_email = ''ana@example.com'',
                   uv_role = Customer\<rparr>"
    by (simp add: authenticateToken_def s1 u1 library_def shop_def view_of_def shop_id_def)
  have f: "find (\<lambda>u. u_email u = ascii_lower (l_email ?req)) (users d1) = Some ?ana"
    by (simp add: u1 shop_def ascii_lower_examples)
  from login_single_session[OF ok] f
  have own: "filter (\<lambda>s. s_user_id s = ''ana'') (user_sessions d2)
              = [\<lparr>s_user_id = ''ana'', s_token = ''ana:ana@example.com:customer.i'',
                  s_expires_at = 604801500\<rparr>]"
    and old: "\<And>old is_uuid env'. old \<noteq> ''ana:ana@example.com:customer.i'' \<Longrightarrow>
               \<forall>s \<in> set (user_sessions d1). s_token s = old \<longrightarrow> s_user_id s = ''ana'' \<Longrightarrow>
               authenticateToken is_uuid env' (Some old) d2
                 = (Inl (unauthorized (if old = [] then Token_requerido else Token_invalido)), d2)"
    unfolding d2_def[symmetric] Let_def
    by (simp_all add: library_def seven_days_def role_text_def)
  have "authenticateToken shop_id (library 2000 ''z'') (Some ''ana:ana@example.com:customer.'') d2
            = (Inl (unauthorized Token_invalido), d2)"
    using old[of "''ana:ana@example.com:customer.''" shop_id "library 2000 ''z''"] by (simp add: s1)
  with s1 a own show ?thesis
    unfolding Let_def unfolding d1_def[symmetric] d2_def[symmetric] by simp
qed

text \<open>
  C8. Two emails are the same in any casing when \<open>toLowerCase\<close> maps them to the same
  text. A successful registration stores the email as \<open>toLowerCase\<close> returns it; and
  wherever a user row carries that form of an email, a valid registration request with
  the email in any casing answers 400 with the duplicate-email message and leaves the
  database as it was: no user row, no session row, and no token in the answer.
\<close>

theorem register_duplicate_email:
  "(fst (fst (register toLowerCase env0 req0 d0)) = 201 \<longrightarrow>
      (\<exists>u \<in> set (users (snd (register toLowerCase env0 req0 d0))).
          u_email u = toLowerCase (r_email req0)))
   \<and> ((\<exists>u \<in> set (users d). u_email u = toLowerCase e0) \<and> r_valid req
        \<and> toLowerCase (r_email req) = toLowerCase e0 \<longrightarrow>
      register toLowerCase env req d = (bad_request Email_ya_registrado, d))"
  by (auto simp: register_def Let_def bad_request_def list_ex_iff split: if_splits)

theorem register_duplicate_email_witness:
  "(let d1 = snd (register ascii_lower (library 1 ''eva'')
                    \<lparr>r_valid = True, r_name = ''Eva'', r_email = ''Eva@Example.com'',
                      r_password = ''Secreto3'', r_phone = None, r_address = None\<rparr>
                    (shop Normal 5 [3]))
    in map u_email (users d1) = [''ana@example.com'', ''leo@example.com'', ''eva@example.com'']
       \<and> register ascii_lower (library 2 ''eva2'')
             \<lparr>r_valid = True, r_name = ''Eva'', r_email = ''EVA@example.COM'',
               r_password = ''Secreto4'', r_phone = None, r_address = None\<rparr> d1
            = (bad_request Email_ya_registrado, d1))"
proof -
  let ?first = "\<lparr>r_valid = True, r_name = ''Eva'', r_email = ''Eva@Example.com'',
                      r_password = ''Secreto3'', r_phone = None, r_address = None\<rparr>"
  let ?again = "\<lparr>r_valid = True, r_name = ''Eva'', r_email = ''EVA@example.COM'',
               r_password = ''Secreto4'', r_phone = None, r_address = None\<rparr>"
  let ?after = "snd (register ascii_lower (library 1 ''eva'') ?first (shop Normal 5 [3]))"
  have ok: "fst (fst (register ascii_lower (library 1 ''eva'') ?first (shop Normal 5 [3]))) = 201"
    and us: "map u_email (users ?after)
               = [''ana@example.com'', ''leo@example.com'', ''eva@example.com'']"
    by (simp_all add: register_def shop_def library_def ascii_lower_examples Let_def)
  have same: "ascii_lower (r_email ?again) = ascii_lower (r_email ?first)" and valid: "r_valid ?again"
    by (simp_all add: ascii_lower_examples)
  note inst = register_duplicate_email[of ascii_lower "library 1 ''eva''" ?first "shop Normal 5 [3]"
      ?after "r_email ?first" ?again "library 2 ''eva2''"]
  from inst ok have "\<exists>u \<in> set (users ?after). u_email u = ascii_lower (r_email ?first)"
    by blast
  with inst same valid
  have "register ascii_lower (library 2 ''eva2'') ?again ?after
          = (bad_request Email_ya_registrado, ?after)"
    by blast
  with us show ?thesis
    unfolding Let_def by (rule conjI)
qed

end
